theory Spec2Isabelle
  imports Complex_Main
begin

section \<open>LINDA nowcasting core: arrays, masked convolution, kernels, window weights\<close>

text \<open>
  The development embeds \<^verbatim>\<open>pysteps/nowcasts/linda.py\<close>.

  Numbers. A float64 value is a \<open>real option\<close>: \<open>Some x\<close> is the finite value \<open>x\<close>, taken
  exactly (rounding, overflow and the sign of a zero are not represented), and \<open>None\<close>
  is a non-finite value (nan or an infinity). Sums, differences and products of floats
  are non-finite as soon as one operand is, so they are exact on this type; the places
  where an infinity turns back into a finite number (\<open>exp\<close> of minus infinity,
  \<open>arctan\<close> of an infinity) are written out in the functions that reach them.

  Arrays. A two-dimensional NumPy array is its shape together with its buffer in
  row-major order.
\<close>

subsection \<open>Floats\<close>

type_synonym fl = "real option"

definition fadd :: "fl \<Rightarrow> fl \<Rightarrow> fl" where
  "fadd a b = (case (a, b) of (Some x, Some y) \<Rightarrow> Some (x + y) | _ \<Rightarrow> None)"

definition fsub :: "fl \<Rightarrow> fl \<Rightarrow> fl" where
  "fsub a b = (case (a, b) of (Some x, Some y) \<Rightarrow> Some (x - y) | _ \<Rightarrow> None)"

definition fmul :: "fl \<Rightarrow> fl \<Rightarrow> fl" where
  "fmul a b = (case (a, b) of (Some x, Some y) \<Rightarrow> Some (x * y) | _ \<Rightarrow> None)"

text \<open>
  Division: a finite number over zero is an infinity or nan, and a non-finite dividend
  gives a non-finite quotient. A finite dividend over a non-finite divisor is nan for a
  nan divisor, which is the only non-finite divisor that the functions below divide a
  finite number by (lemma \<open>masked_divisor_finite\<close>, and the sum in \<open>normalise\<close>); the
  model has \<open>None\<close> there.
\<close>

definition fdiv :: "fl \<Rightarrow> fl \<Rightarrow> fl" where
  "fdiv a b = (case (a, b) of
      (Some x, Some y) \<Rightarrow> (if y = 0 then None else Some (x / y))
    | _ \<Rightarrow> None)"

definition fsum :: "fl list \<Rightarrow> fl" where
  "fsum xs = foldr fadd xs (Some 0)"

subsection \<open>Errors\<close>

datatype error = IndexError | ValueError | TypeError | NameError | UnboundLocalError

subsection \<open>Two-dimensional arrays\<close>

record 'a array2 =
  nrows :: nat
  ncols :: nat
  dat :: "'a list"

definition wf2 :: "'a array2 \<Rightarrow> bool" where
  "wf2 a \<longleftrightarrow> length (dat a) = nrows a * ncols a"

definition same_shape :: "'a array2 \<Rightarrow> 'b array2 \<Rightarrow> bool" where
  "same_shape a b \<longleftrightarrow> nrows a = nrows b \<and> ncols a = ncols b"

definition at2 :: "'a array2 \<Rightarrow> nat \<Rightarrow> nat \<Rightarrow> 'a" where
  "at2 a i j = dat a ! (i * ncols a + j)"

definition map_array :: "('a \<Rightarrow> 'b) \<Rightarrow> 'a array2 \<Rightarrow> 'b array2" where
  "map_array f a = \<lparr>nrows = nrows a, ncols = ncols a, dat = map f (dat a)\<rparr>"

text \<open>\<^verbatim>\<open>np.isfinite(a)\<close>, \<^verbatim>\<open>~mask\<close>, \<^verbatim>\<open>mask.astype(float)\<close> and
  \<^verbatim>\<open>np.ones(shape) * np.nan\<close>.\<close>

definition isfinite :: "fl array2 \<Rightarrow> bool array2" where
  "isfinite a = map_array (\<lambda>v. v \<noteq> None) a"

definition invert :: "bool array2 \<Rightarrow> bool array2" where
  "invert m = map_array Not m"

definition astype_float :: "bool array2 \<Rightarrow> fl array2" where
  "astype_float m = map_array (\<lambda>b. if b then Some 1 else Some 0) m"

definition nan_like :: "'a array2 \<Rightarrow> fl array2" where
  "nan_like a = \<lparr>nrows = nrows a, ncols = ncols a, dat = replicate (nrows a * ncols a) None\<rparr>"

text \<open>Boolean-mask indexing works on the buffers in row-major order.\<close>

fun mask_select :: "bool list \<Rightarrow> 'a list \<Rightarrow> 'a list" where
  "mask_select (m # ms) (x # xs) = (if m then x # mask_select ms xs else mask_select ms xs)"
| "mask_select _ _ = []"

fun mask_assign :: "bool list \<Rightarrow> 'a list \<Rightarrow> 'a list \<Rightarrow> 'a list" where
  "mask_assign (m # ms) (v # vs) (x # xs) =
     (if m then v # mask_assign ms vs xs else x # mask_assign ms (v # vs) xs)"
| "mask_assign (m # ms) [] (x # xs) = x # mask_assign ms [] xs"
| "mask_assign _ _ xs = xs"

definition count_true :: "bool list \<Rightarrow> nat" where
  "count_true ms = length (filter id ms)"

text \<open>\<^verbatim>\<open>a[mask]\<close>: the selected entries as a one-dimensional array; IndexError when
  the mask has another shape than the array.\<close>

definition select_where :: "bool array2 \<Rightarrow> 'a array2 \<Rightarrow> error + 'a list" where
  "select_where m a =
     (if same_shape m a then Inr (mask_select (dat m) (dat a)) else Inl IndexError)"

text \<open>\<^verbatim>\<open>a[mask] = v\<close> for a scalar \<open>v\<close>.\<close>

definition fill_where :: "bool array2 \<Rightarrow> 'a \<Rightarrow> 'a array2 \<Rightarrow> error + 'a array2" where
  "fill_where m v a =
     (if same_shape m a
      then Inr (a\<lparr>dat := map (\<lambda>(b, x). if b then v else x) (zip (dat m) (dat a))\<rparr>)
      else Inl IndexError)"

text \<open>\<^verbatim>\<open>a[mask] = vs\<close> for a one-dimensional array \<open>vs\<close>: ValueError unless there is
  one value for each selected position.\<close>

definition assign_where :: "bool array2 \<Rightarrow> 'a list \<Rightarrow> 'a array2 \<Rightarrow> error + 'a array2" where
  "assign_where m vs a =
     (if \<not> same_shape m a then Inl IndexError
      else if length vs \<noteq> count_true (dat m) then Inl ValueError
      else Inr (a\<lparr>dat := mask_assign (dat m) vs (dat a)\<rparr>))"

text \<open>Elementwise division of two one-dimensional arrays of the same length.\<close>

definition divide1 :: "fl list \<Rightarrow> fl list \<Rightarrow> error + fl list" where
  "divide1 xs ys =
     (if length xs = length ys then Inr (map (\<lambda>(x, y). fdiv x y) (zip xs ys))
      else Inl ValueError)"

subsection \<open>Convolution\<close>

text \<open>
  Modelled from the spec: \<^verbatim>\<open>scipy.signal.convolve(a, k, mode="same")\<close> is a library
  function; the spec describes it as the linear, same-size convolution with a
  zero-padded boundary. The full convolution of an \<open>m \<times> n\<close> array with a \<open>p \<times> q\<close>
  kernel at \<open>(r, c)\<close> is the sum of \<open>a[r - u, c - v] * k[u, v]\<close> over the kernel, the
  array being zero outside its grid; the same-size result is the central
  \<open>m \<times> n\<close> part, which starts at \<open>((p - 1) div 2, (q - 1) div 2)\<close>.
\<close>

definition padded :: "fl array2 \<Rightarrow> int \<Rightarrow> int \<Rightarrow> fl" where
  "padded a r c =
     (if 0 \<le> r \<and> r < int (nrows a) \<and> 0 \<le> c \<and> c < int (ncols a)
      then at2 a (nat r) (nat c) else Some 0)"

definition conv_full_at :: "fl array2 \<Rightarrow> fl array2 \<Rightarrow> int \<Rightarrow> int \<Rightarrow> fl" where
  "conv_full_at a k r c =
     fsum (concat (map (\<lambda>u. map (\<lambda>v. fmul (padded a (r - int u) (c - int v)) (at2 k u v))
                                 [0..<ncols k]) [0..<nrows k]))"

definition convolve_same :: "fl array2 \<Rightarrow> fl array2 \<Rightarrow> fl array2" where
  "convolve_same a k =
     \<lparr>nrows = nrows a, ncols = ncols a,
      dat = map (\<lambda>p. conv_full_at a k
                       (int (p div ncols a) + int ((nrows k - 1) div 2))
                       (int (p mod ncols a) + int ((ncols k - 1) div 2)))
                [0..<nrows a * ncols a]\<rparr>"

subsection \<open>Masked convolution\<close>

text \<open>
  \<^verbatim>\<open>_masked_convolution(field, kernel)\<close>, on array values:
  \<^verbatim>\<open>
    mask = np.isfinite(field)
    field = field.copy()
    field[~mask] = 0.0
    field_c = np.ones(field.shape) * np.nan
    field_c[mask] = convolve(field, kernel, mode="same")[mask]
    field_c[mask] /= convolve(mask.astype(float), kernel, mode="same")[mask]
    return field_c
  \<close>
\<close>

definition bind_err :: "error + 'a \<Rightarrow> ('a \<Rightarrow> error + 'b) \<Rightarrow> error + 'b" where
  "bind_err r f = (case r of Inl e \<Rightarrow> Inl e | Inr x \<Rightarrow> f x)"

definition masked_convolution :: "fl array2 \<Rightarrow> fl array2 \<Rightarrow> error + fl array2" where
  "masked_convolution field kern =
     (let mask = isfinite field in
      bind_err (fill_where (invert mask) (Some 0) field) (\<lambda>field0.
      let field_c = nan_like field0 in
      bind_err (select_where mask (convolve_same field0 kern)) (\<lambda>v1.
      bind_err (assign_where mask v1 field_c) (\<lambda>field_c1.
      bind_err (select_where mask field_c1) (\<lambda>t.
      bind_err (select_where mask (convolve_same (astype_float mask) kern)) (\<lambda>v2.
      bind_err (divide1 t v2) (\<lambda>q.
      assign_where mask q field_c1)))))))"

text \<open>The spec's words for the two convolved arrays: the field with its non-finite
  entries replaced by zero, and the 0/1 finiteness mask.\<close>

definition zero_filled :: "fl array2 \<Rightarrow> fl array2" where
  "zero_filled a = map_array (\<lambda>v. case v of None \<Rightarrow> Some 0 | Some x \<Rightarrow> Some x) a"

definition finiteness_mask :: "fl array2 \<Rightarrow> fl array2" where
  "finiteness_mask a = map_array (\<lambda>v. case v of None \<Rightarrow> Some 0 | Some x \<Rightarrow> Some 1) a"


text \<open>The value the function leaves at a position: \<open>v\<close> is the field's entry there,
  \<open>a\<close> and \<open>b\<close> are the two convolutions.\<close>

definition masked_value :: "fl \<Rightarrow> fl \<Rightarrow> fl \<Rightarrow> fl" where
  "masked_value v a b = (if v \<noteq> None then fdiv a b else None)"

definition ones_like :: "'a array2 \<Rightarrow> fl array2" where
  "ones_like a = map_array (\<lambda>_. Some 1) a"

definition no_missing :: "fl array2 \<Rightarrow> bool" where
  "no_missing a \<longleftrightarrow> (\<forall>v \<in> set (dat a). v \<noteq> None)"

subsection \<open>Example arrays\<close>

text \<open>A row of three ones, a \<open>2 \<times> 2\<close> field with one missing value, and the
  normalised \<open>1 \<times> 3\<close> box kernel.\<close>

definition field_ones3 :: "fl array2" where
  "field_ones3 = \<lparr>nrows = 1, ncols = 3, dat = [Some 1, Some 1, Some 1]\<rparr>"

definition field_gap :: "fl array2" where
  "field_gap = \<lparr>nrows = 2, ncols = 2, dat = [Some 3, None, Some 1, Some 2]\<rparr>"

definition kernel_box3 :: "fl array2" where
  "kernel_box3 = \<lparr>nrows = 1, ncols = 3, dat = [Some (1/3), Some (1/3), Some (1/3)]\<rparr>"

subsection \<open>Masked convolution on a store\<close>

text \<open>
  NumPy arrays are mutable objects passed by reference. The store is the list of the
  arrays that exist, an address is a position in it, and a new array is put at the
  end. \<open>_masked_convolution\<close> receives the addresses of its two arguments; the
  statement \<^verbatim>\<open>field = field.copy()\<close> rebinds the local name to a new array, and the
  two in-place assignments after it write to that copy and to \<^verbatim>\<open>field_c\<close>. The mask
  and the results of \<^verbatim>\<open>convolve\<close> are temporaries that nothing writes to; they are
  kept as values.
\<close>

type_synonym addr = nat
type_synonym heap = "fl array2 list"

definition alloc :: "heap \<Rightarrow> fl array2 \<Rightarrow> heap \<times> addr" where
  "alloc h a = (h @ [a], length h)"

definition masked_convolution_st :: "heap \<Rightarrow> addr \<Rightarrow> addr \<Rightarrow> error + heap \<times> addr" where
  "masked_convolution_st h field kern =
     (let mask = isfinite (h ! field);
          (h1, field') = alloc h (h ! field)
      in bind_err (fill_where (invert mask) (Some 0) (h1 ! field')) (\<lambda>a.
         let h2 = h1[field' := a];
             (h3, field_c) = alloc h2 (nan_like (h2 ! field'))
         in bind_err (select_where mask (convolve_same (h3 ! field') (h3 ! kern))) (\<lambda>v1.
            bind_err (assign_where mask v1 (h3 ! field_c)) (\<lambda>a1.
            let h4 = h3[field_c := a1]
            in bind_err (select_where mask (h4 ! field_c)) (\<lambda>t.
               bind_err (select_where mask (convolve_same (astype_float mask) (h4 ! kern))) (\<lambda>v2.
               bind_err (divide1 t v2) (\<lambda>q.
               bind_err (assign_where mask q (h4 ! field_c)) (\<lambda>a2.
               Inr (h4[field_c := a2], field_c)))))))))"

subsection \<open>The bounding box of a rotated ellipse\<close>

text \<open>
  \<^verbatim>\<open>np.arctan(num / den)\<close> on finite floats. A zero divisor gives an infinity, whose
  arc tangent is a right angle, or nan when the dividend is zero too. The sign of the
  infinity is that of the dividend for a divisor \<open>+0\<close> and the opposite for \<open>-0\<close>; the
  model takes \<open>+0\<close>.
\<close>

definition np_arctan_div :: "real \<Rightarrow> real \<Rightarrow> fl" where
  "np_arctan_div num den =
     (if den \<noteq> 0 then Some (arctan (num / den))
      else if num = 0 then None
      else if 0 < num then Some (pi / 2) else Some (- (pi / 2)))"

definition fabs :: "fl \<Rightarrow> fl" where
  "fabs v = map_option abs v"

definition fneg :: "fl \<Rightarrow> fl" where
  "fneg v = map_option uminus v"

definition general_angle :: "real \<Rightarrow> bool" where
  "general_angle phi_r \<longleftrightarrow>
     \<bar>phi_r - pi / 2\<bar> > 1 / 1000000 \<and> \<bar>phi_r - 3 * pi / 2\<bar> > 1 / 1000000"

text \<open>
  \<^verbatim>\<open>_compute_ellipse_bbox(phi, sigma1, sigma2, cutoff)\<close> returns
  \<^verbatim>\<open>(-abs(h), -abs(w), abs(h), abs(w))\<close>.
\<close>

definition compute_ellipse_bbox :: "real \<Rightarrow> real \<Rightarrow> real \<Rightarrow> real \<Rightarrow> fl \<times> fl \<times> fl \<times> fl" where
  "compute_ellipse_bbox phi sigma1 sigma2 cutoff =
     (let r1 = cutoff * sigma1;
          r2 = cutoff * sigma2;
          phi_r = phi / 180 * pi;
          (w, h) =
            (if general_angle phi_r
             then (let alpha = np_arctan_div (- r2 * sin phi_r) (r1 * cos phi_r);
                       w = map_option (\<lambda>a. r1 * cos a * cos phi_r - r2 * sin a * sin phi_r) alpha;
                       alpha' = np_arctan_div (r2 * cos phi_r) (r1 * sin phi_r);
                       h = map_option (\<lambda>a. r1 * cos a * sin phi_r + r2 * sin a * cos phi_r) alpha'
                   in (w, h))
             else (Some (sigma2 * cutoff), Some (sigma1 * cutoff)))
      in (fneg (fabs h), fneg (fabs w), fabs h, fabs w))"

text \<open>A box \<open>(min_y, min_x, max_y, max_x)\<close> with its two axes exchanged.\<close>

definition swap_axes :: "fl \<times> fl \<times> fl \<times> fl \<Rightarrow> fl \<times> fl \<times> fl \<times> fl" where
  "swap_axes b = (case b of (y1, x1, y2, x2) \<Rightarrow> (x1, y1, x2, y2))"

text \<open>The angles at which the two branches of the function agree exactly: away from
  the vertical by more than the tolerance, or exactly vertical.\<close>

definition exact_angle :: "real \<Rightarrow> bool" where
  "exact_angle phi \<longleftrightarrow> general_angle (phi / 180 * pi) \<or> cos (phi / 180 * pi) = 0"

text \<open>The half-extents of the ellipse with semi-axes \<open>cutoff * sigma1\<close> and
  \<open>cutoff * sigma2\<close> turned by \<open>phi\<close> degrees, in closed form.\<close>

definition extent_w :: "real \<Rightarrow> real \<Rightarrow> real \<Rightarrow> real \<Rightarrow> real" where
  "extent_w phi sigma1 sigma2 cutoff =
     sqrt ((cutoff * sigma1 * cos (phi / 180 * pi))\<^sup>2 + (cutoff * sigma2 * sin (phi / 180 * pi))\<^sup>2)"

definition extent_h :: "real \<Rightarrow> real \<Rightarrow> real \<Rightarrow> real \<Rightarrow> real" where
  "extent_h phi sigma1 sigma2 cutoff =
     sqrt ((cutoff * sigma1 * sin (phi / 180 * pi))\<^sup>2 + (cutoff * sigma2 * cos (phi / 180 * pi))\<^sup>2)"

subsection \<open>Kernel builders\<close>

text \<open>
  A parameter argument is a tuple or array of floats, or (as \<open>_optimize_convol_params\<close>
  passes it for the isotropic family) a single float.
\<close>

datatype params = Scalar real | Vector "real list"

text \<open>\<^verbatim>\<open>int(v)\<close> on a float truncates towards zero and raises ValueError on nan.\<close>

definition py_int :: "real \<Rightarrow> int" where
  "py_int v = (if 0 \<le> v then \<lfloor>v\<rfloor> else \<lceil>v\<rceil>)"

definition int_of_float :: "fl \<Rightarrow> error + int" where
  "int_of_float v = (case v of None \<Rightarrow> Inl ValueError | Some x \<Rightarrow> Inr (py_int x))"

text \<open>\<^verbatim>\<open>np.arange(lo, hi).astype(float)\<close> for integers, and the odd-length grid axis:
  \<^verbatim>\<open>
    x = np.arange(int(bb_x1), int(bb_x2) + 1).astype(float)
    if len(x) % 2 == 0:
        x = np.arange(int(bb_x1) - 1, int(bb_x2) + 1).astype(float)
  \<close>\<close>

definition arange :: "int \<Rightarrow> int \<Rightarrow> real list" where
  "arange lo hi = map real_of_int [lo..hi - 1]"

definition axis_points :: "int \<Rightarrow> int \<Rightarrow> real list" where
  "axis_points b1 b2 =
     (let x = arange b1 (b2 + 1)
      in if even (length x) then arange (b1 - 1) (b2 + 1) else x)"

text \<open>
  The exponent of the kernel is a non-negative quantity that can be infinite or nan when
  a scale is zero. \<open>nonneg_div x d\<close> is \<open>x / d\<close> for \<open>x \<ge> 0\<close> and a divisor that is
  positive or \<open>+0\<close> (an absolute value or a square); \<open>ext_pow s p\<close> is \<open>s ** p\<close> for
  \<open>s \<ge> 0\<close>, with \<open>0 ** p\<close> and \<open>inf ** p\<close> as NumPy has them; \<open>exp_neg s\<close> is
  \<open>exp(-s)\<close>, which is \<open>0\<close> at infinity.
\<close>

datatype ext = Fin real | PInf | NaN

definition nonneg_div :: "real \<Rightarrow> real \<Rightarrow> ext" where
  "nonneg_div x d = (if d \<noteq> 0 then Fin (x / d) else if x = 0 then NaN else PInf)"

fun ext_add :: "ext \<Rightarrow> ext \<Rightarrow> ext" where
  "ext_add (Fin a) (Fin b) = Fin (a + b)"
| "ext_add NaN _ = NaN"
| "ext_add _ NaN = NaN"
| "ext_add _ _ = PInf"

definition ext_pow :: "ext \<Rightarrow> real \<Rightarrow> ext" where
  "ext_pow s p =
     (if p = 0 then Fin 1
      else case s of
        NaN \<Rightarrow> NaN
      | PInf \<Rightarrow> (if 0 < p then PInf else Fin 0)
      | Fin v \<Rightarrow> (if v = 0 then (if 0 < p then Fin 0 else PInf) else Fin (v powr p)))"

definition ext_half :: "ext \<Rightarrow> ext" where
  "ext_half s = (case s of Fin v \<Rightarrow> Fin (v / 2) | PInf \<Rightarrow> PInf | NaN \<Rightarrow> NaN)"

definition exp_neg :: "ext \<Rightarrow> fl" where
  "exp_neg s = (case s of Fin v \<Rightarrow> Some (exp (- v)) | PInf \<Rightarrow> Some 0 | NaN \<Rightarrow> None)"

text \<open>\<^verbatim>\<open>result / np.sum(result)\<close>: the sum of the entries \<open>exp(...)\<close> is finite or
  nan, so a non-finite divisor is nan here.\<close>

definition normalise :: "fl list \<Rightarrow> fl list" where
  "normalise result = (let total = fsum result in map (\<lambda>r. fdiv r total) result)"

text \<open>
  \<^verbatim>\<open>_compute_kernel_anisotropic(params, cutoff=6.0)\<close>. The grid is the mesh of \<open>x\<close> and
  \<open>y\<close>, of shape \<open>(len(y), len(x))\<close>; each point is turned by \<open>R_inv\<close> and the entry is
  \<^verbatim>\<open>exp(-((x2 / sigma1 + y2 / sigma2) ** params[3]))\<close>. Indexing a float raises
  (IndexError for a NumPy scalar, TypeError for a Python float).
\<close>

definition anisotropic_entry :: "real \<Rightarrow> real \<Rightarrow> real \<Rightarrow> real \<Rightarrow> real \<Rightarrow> real \<Rightarrow> fl" where
  "anisotropic_entry phi_r sigma1 sigma2 p yv xv =
     (let u = cos phi_r * xv + sin phi_r * yv;
          v = - sin phi_r * xv + cos phi_r * yv;
          x2 = u * u;
          y2 = v * v
      in exp_neg (ext_pow (ext_add (nonneg_div x2 sigma1) (nonneg_div y2 sigma2)) p))"

definition compute_kernel_anisotropic :: "params \<Rightarrow> real \<Rightarrow> error + fl array2" where
  "compute_kernel_anisotropic params cutoff =
     (case params of
        Scalar _ \<Rightarrow> Inl IndexError
      | Vector ps \<Rightarrow>
          (case take 3 ps of
             [phi, s1, s2] \<Rightarrow>
               (let sigma1 = \<bar>s1\<bar>;
                    sigma2 = \<bar>s2\<bar>;
                    phi_r = phi / 180 * pi;
                    (bb_y1, bb_x1, bb_y2, bb_x2) = compute_ellipse_bbox phi sigma1 sigma2 cutoff
                in bind_err (int_of_float bb_x1) (\<lambda>x1.
                   bind_err (int_of_float bb_x2) (\<lambda>x2.
                   bind_err (int_of_float bb_y1) (\<lambda>y1.
                   bind_err (int_of_float bb_y2) (\<lambda>y2.
                   let x = axis_points x1 x2;
                       y = axis_points y1 y2
                   in if length ps < 4 then Inl IndexError
                      else let result = concat (map (\<lambda>yv. map (anisotropic_entry phi_r sigma1 sigma2 (ps ! 3) yv) x) y)
                           in Inr \<lparr>nrows = length y, ncols = length x, dat = normalise result\<rparr>)))))
           | _ \<Rightarrow> Inl ValueError))"

text \<open>
  \<^verbatim>\<open>_compute_kernel_isotropic(params, cutoff=6.0)\<close>: the mesh of \<open>x / sigma\<close> and
  \<open>y / sigma\<close>, the entry \<^verbatim>\<open>exp(-0.5 * (X * X + Y * Y))\<close>. \<open>sq_div v sigma\<close> is the
  square of \<open>v / sigma\<close>.
\<close>

definition sq_div :: "real \<Rightarrow> real \<Rightarrow> ext" where
  "sq_div v sigma =
     (if sigma \<noteq> 0 then Fin ((v / sigma) * (v / sigma)) else if v = 0 then NaN else PInf)"

definition isotropic_entry :: "real \<Rightarrow> real \<Rightarrow> real \<Rightarrow> fl" where
  "isotropic_entry sigma yv xv = exp_neg (ext_half (ext_add (sq_div xv sigma) (sq_div yv sigma)))"

definition compute_kernel_isotropic :: "params \<Rightarrow> real \<Rightarrow> error + fl array2" where
  "compute_kernel_isotropic params cutoff =
     (case params of
        Scalar _ \<Rightarrow> Inl IndexError
      | Vector [] \<Rightarrow> Inl IndexError
      | Vector (sigma # _) \<Rightarrow>
          (let bb_y1 = - sigma * cutoff;
               bb_x1 = - sigma * cutoff;
               bb_y2 = sigma * cutoff;
               bb_x2 = sigma * cutoff;
               x = axis_points (py_int bb_x1) (py_int bb_x2);
               y = axis_points (py_int bb_y1) (py_int bb_y2);
               result = concat (map (\<lambda>yv. map (isotropic_entry sigma yv) x) y)
           in Inr \<lparr>nrows = length y, ncols = length x, dat = normalise result\<rparr>))"

text \<open>A list of floats all of whose entries are finite and positive.\<close>

definition positive_entries :: "fl list \<Rightarrow> bool" where
  "positive_entries xs \<longleftrightarrow> (\<forall>v \<in> set xs. \<exists>r > 0. v = Some r)"

subsection \<open>The kernel fitter\<close>

text \<open>\<^verbatim>\<open>np.arctan2(y, x)\<close> on finite floats (zeros taken as \<open>+0\<close>).\<close>

definition np_arctan2 :: "real \<Rightarrow> real \<Rightarrow> real" where
  "np_arctan2 y x =
     (if 0 < x then arctan (y / x)
      else if x < 0 then (if 0 \<le> y then arctan (y / x) + pi else arctan (y / x) - pi)
      else if 0 < y then pi / 2 else if y < 0 then - (pi / 2) else 0)"

text \<open>\<^verbatim>\<open>_get_anisotropic_kernel_params(p)\<close> returns
  \<^verbatim>\<open>(theta, sigma1, sigma2, p[3])\<close>.\<close>

definition get_anisotropic_kernel_params :: "real list \<Rightarrow> error + params" where
  "get_anisotropic_kernel_params p =
     (if length p < 4 then Inl IndexError
      else let theta = np_arctan2 (p ! 1) (p ! 0);
               sigma1 = sqrt (p ! 0 * p ! 0 + p ! 1 * p ! 1);
               sigma2 = sigma1 * p ! 2
           in Inr (Vector [theta, sigma1, sigma2, p ! 3]))"

text \<open>
  \<^verbatim>\<open>np.logical_and(mask, weights > 1e-3)\<close> for two-dimensional arrays; the weights
  are finite. NumPy broadcasts the two arrays: along each axis their lengths have to
  agree unless one of them is \<open>1\<close>, in which case that array is repeated along the
  axis; otherwise the call raises ValueError.
\<close>

definition broadcast_dim :: "nat \<Rightarrow> nat \<Rightarrow> nat option" where
  "broadcast_dim a b =
     (if a = b then Some a else if a = 1 then Some b else if b = 1 then Some a else None)"

definition broadcast_at :: "'a array2 \<Rightarrow> nat \<Rightarrow> nat \<Rightarrow> 'a" where
  "broadcast_at a i j = at2 a (if nrows a = 1 then 0 else i) (if ncols a = 1 then 0 else j)"

definition logical_and_gt :: "bool array2 \<Rightarrow> real array2 \<Rightarrow> error + bool array2" where
  "logical_and_gt valid weights =
     (case (broadcast_dim (nrows valid) (nrows weights),
            broadcast_dim (ncols valid) (ncols weights)) of
        (Some m, Some n) \<Rightarrow>
          Inr \<lparr>nrows = m, ncols = n,
               dat = map (\<lambda>p. broadcast_at valid (p div n) (p mod n) \<and>
                              broadcast_at weights (p div n) (p mod n) > 1 / 1000)
                         [0..<m * n]\<rparr>
      | _ \<Rightarrow> Inl ValueError)"

text \<open>
  The objective \<^verbatim>\<open>objf(p)\<close> of \<open>_optimize_convol_params\<close>: a vector of residuals for
  the least-squares solver, a sum of squares otherwise. The isotropic family passes
  the tuple \<^verbatim>\<open>(p,)\<close> to the isotropic builder.
\<close>

datatype objval = Residuals "fl list" | Total fl

definition objf ::
  "fl array2 \<Rightarrow> fl array2 \<Rightarrow> real array2 \<Rightarrow> bool array2 \<Rightarrow> string \<Rightarrow> real \<Rightarrow> string \<Rightarrow>
   params \<Rightarrow> error + objval" where
  "objf field_src field_dst weights valid kernel_type cutoff method p =
     bind_err
       (if kernel_type = ''anisotropic''
        then (case p of
                Vector v \<Rightarrow> bind_err (get_anisotropic_kernel_params v)
                              (\<lambda>q. compute_kernel_anisotropic q cutoff)
              | Scalar _ \<Rightarrow> Inl IndexError)
        else (case p of
                Scalar x \<Rightarrow> compute_kernel_isotropic (Vector [x]) cutoff
              | Vector _ \<Rightarrow> Inl TypeError)) (\<lambda>kern.
     bind_err (masked_convolution field_src kern) (\<lambda>field_src_c.
     bind_err (select_where valid weights) (\<lambda>w.
     bind_err (select_where valid field_dst) (\<lambda>d.
     bind_err (select_where valid field_src_c) (\<lambda>c.
       if kernel_type = ''anisotropic'' \<and> method = ''trf''
       then Inr (Residuals (map (\<lambda>(w, d, c). fmul (Some (sqrt w)) (fsub d c)) (zip w (zip d c))))
       else Inr (Total (fsum (map (\<lambda>(w, d, c). fmul (Some w) (fmul (fsub d c) (fsub d c)))
                                  (zip w (zip d c))))))))))"

text \<open>
  The SciPy solvers are library code: the fitter takes them as parameters. Each receives
  the objective, the start or the bounds as the source passes them, and returns the
  \<^verbatim>\<open>x\<close> of its result, or the exception that the objective or the solver raised.
\<close>

record scipy =
  minimize_lbfgsb :: "(params \<Rightarrow> error + objval) \<Rightarrow> real list \<Rightarrow> (real \<times> real) list \<Rightarrow> error + real list"
  least_squares_trf :: "(params \<Rightarrow> error + objval) \<Rightarrow> real list \<Rightarrow> real list \<times> real list \<Rightarrow> error + real list"
  minimize_scalar_bounded :: "(params \<Rightarrow> error + objval) \<Rightarrow> real \<times> real \<Rightarrow> error + real"

text \<open>
  \<^verbatim>\<open>_optimize_convol_params(field_src, field_dst, weights, mask, kernel_type,
  kernel_params, method)\<close>, with \<open>valid\<close> for \<^verbatim>\<open>mask\<close> and \<open>cutoff\<close> for \<^verbatim>\<open>kernel_params\<close>. For a method other
  than the two the anisotropic branch knows, \<^verbatim>\<open>p_opt\<close> is unbound when it is read.
  The last line is common to both families:
  \<^verbatim>\<open>return _compute_kernel_anisotropic(p_opt, **kernel_params)\<close>.
\<close>

definition optimize_convol_params ::
  "scipy \<Rightarrow> fl array2 \<Rightarrow> fl array2 \<Rightarrow> real array2 \<Rightarrow> bool array2 \<Rightarrow> string \<Rightarrow> real \<Rightarrow> string \<Rightarrow>
   error + fl array2" where
  "optimize_convol_params sp field_src field_dst weights valid kernel_type cutoff method =
     bind_err (logical_and_gt valid weights) (\<lambda>valid'.
     let f = objf field_src field_dst weights valid' kernel_type cutoff method
     in bind_err
          (if kernel_type = ''anisotropic''
           then bind_err
                  (if method = ''lbfgsb''
                   then minimize_lbfgsb sp f [1, 1, 1, 1]
                          [(- 10, 10), (- 10, 10), (1 / 4, 4), (1 / 10, 5)]
                   else if method = ''trf''
                   then least_squares_trf sp f [1, 1, 1, 1]
                          ([- 10, - 10, 1 / 4, 1 / 10], [10, 10, 4, 5])
                   else Inl UnboundLocalError)
                  get_anisotropic_kernel_params
           else bind_err (minimize_scalar_bounded sp f (1 / 100, 10)) (\<lambda>x. Inr (Scalar x)))
          (\<lambda>p_opt. compute_kernel_anisotropic p_opt cutoff))"

subsection \<open>Window weights\<close>

text \<open>
  \<^verbatim>\<open>_compute_window_weights(coords, grid_height, grid_width, window_radii)\<close>. The
  coordinates are the rows \<open>(c[0], c[1])\<close> of an array of shape \<open>(num_features, 2)\<close>,
  the radii a one-dimensional array, and the result, of shape
  \<open>(num_features, grid_height, grid_width)\<close>, is the list of its two-dimensional
  slices \<open>w[i]\<close>. The entry of a slice is
  \<^verbatim>\<open>exp(-dy * dy / (2 * r1 ** 2) - dx * dx / (2 * r2 ** 2))\<close>, the exponential of minus
  the sum of two non-negative quotients; a zero radius makes a quotient infinite, or
  nan where the offset is zero too. The quotients by a zero grid height or width are
  not written out: a grid with no rows or no columns has no entry that reads them.
\<close>

definition grid_axis :: "nat \<Rightarrow> real list" where
  "grid_axis n = map (\<lambda>k. (real k + 1 / 2) / real n) [0..<n]"

definition window_entry :: "real \<times> real \<Rightarrow> real \<Rightarrow> real \<Rightarrow> real \<Rightarrow> real \<Rightarrow> fl" where
  "window_entry c r1 r2 gy gx =
     (let dy = fst c - gy;
          dx = snd c - gx
      in exp_neg (ext_add (nonneg_div (dy * dy) (2 * r1\<^sup>2)) (nonneg_div (dx * dx) (2 * r2\<^sup>2))))"

definition window_field :: "real \<times> real \<Rightarrow> real \<Rightarrow> real \<Rightarrow> real list \<Rightarrow> real list \<Rightarrow> fl array2" where
  "window_field c r1 r2 grid_y grid_x =
     \<lparr>nrows = length grid_y, ncols = length grid_x,
      dat = concat (map (\<lambda>gy. map (window_entry c r1 r2 gy) grid_x) grid_y)\<rparr>"

text \<open>The loop \<^verbatim>\<open>for i, c in enumerate(coords)\<close>, from index \<open>i\<close> on; reading a radius
  past the end of the array raises IndexError.\<close>

fun window_loop ::
  "nat \<Rightarrow> (real \<times> real) list \<Rightarrow> real list \<Rightarrow> real list \<Rightarrow> real list \<Rightarrow> real list \<Rightarrow>
   error + fl array2 list" where
  "window_loop i [] radii_1 radii_2 grid_y grid_x = Inr []"
| "window_loop i (c # cs) radii_1 radii_2 grid_y grid_x =
     (if i < length radii_1 \<and> i < length radii_2
      then bind_err (window_loop (Suc i) cs radii_1 radii_2 grid_y grid_x)
             (\<lambda>ws. Inr (window_field c (radii_1 ! i) (radii_2 ! i) grid_y grid_x # ws))
      else Inl IndexError)"

definition compute_window_weights ::
  "(real \<times> real) list \<Rightarrow> nat \<Rightarrow> nat \<Rightarrow> real list \<Rightarrow> error + fl array2 list" where
  "compute_window_weights coords grid_height grid_width window_radii =
     (let coords' = map (\<lambda>(a, b). (a / real grid_height, b / real grid_width)) coords;
          num_features = length coords';
          window_radii_1 = map (\<lambda>r. r / real grid_height) window_radii;
          window_radii_2 = map (\<lambda>r. r / real grid_width) window_radii;
          grid_x = grid_axis grid_width;
          grid_y = grid_axis grid_height
      in if length coords' > 1
         then window_loop 0 coords' window_radii_1 window_radii_2 grid_y grid_x
         else if num_features = 0 then Inl IndexError
         else Inr [\<lparr>nrows = grid_height, ncols = grid_width,
                    dat = replicate (grid_height * grid_width) (Some 1)\<rparr>])"




subsection \<open>The forecast entry point\<close>

text \<open>
  The body of \<^verbatim>\<open>forecast\<close> in the source is
  \<^verbatim>\<open>
    localized_nowcasts = np.empty(
        (num_features, precip_fields.shape[1], precip_fields.shape[2]))
    window_weights = _compute_window_weights(
        feature_coords, precip_fields.shape[1], precip_fields.shape[2], window_radii)
    for t in range(num_timesteps):
        np.sum(window_weights * localized_nowcasts, axis=0)
  \<close>
  The names \<^verbatim>\<open>num_features\<close>, \<^verbatim>\<open>feature_coords\<close> and \<^verbatim>\<open>window_radii\<close> are neither
  parameters nor local variables, so Python looks them up among the globals of the
  module when the statement runs, and raises NameError for a name that is not there.
  The function has no \<^verbatim>\<open>return\<close> statement: a call that reaches the end returns
  \<^verbatim>\<open>None\<close>.
\<close>

record 'a array3 =
  depth :: nat
  height :: nat
  width :: nat
  dat3 :: "'a list"

datatype pyval = PyInt int | PyCoords "(real \<times> real) list" | PyFloats "real list" | PyOther

datatype 'a returned = ReturnsNone | Returns 'a

type_synonym globals = "string \<Rightarrow> pyval option"

text \<open>The names that the module binds at its top level: its imports and its functions.\<close>

definition module_names :: "string list" where
  "module_names =
     [''DASK_IMPORTED'', ''dask'', ''np'', ''least_squares'', ''LinearConstraint'', ''minimize'',
      ''minimize_scalar'', ''convolve'', ''extrapolation'', ''utils'', ''forecast'',
      ''_compute_kernel_anisotropic'', ''_compute_kernel_isotropic'', ''_compute_ellipse_bbox'',
      ''_compute_window_weights'', ''_get_anisotropic_kernel_params'', ''_iterate_ar_model'',
      ''_masked_convolution'', ''_optimize_ar1_params'', ''_optimize_ar2_params'',
      ''_optimize_convol_params'']"

definition module_globals :: globals where
  "module_globals name = (if name \<in> set module_names then Some PyOther else None)"

definition load_global :: "globals \<Rightarrow> string \<Rightarrow> error + pyval" where
  "load_global g name = (case g name of None \<Rightarrow> Inl NameError | Some v \<Rightarrow> Inr v)"

text \<open>The loop: the product \<^verbatim>\<open>window_weights * localized_nowcasts\<close> of arrays of shapes
  \<open>(f, m, n)\<close> and \<open>(k, m, n)\<close> raises ValueError unless the first dimensions agree or
  one of them is \<open>1\<close>; the sum is discarded.\<close>

fun timestep_loop :: "nat \<Rightarrow> nat \<Rightarrow> nat \<Rightarrow> error + unit" where
  "timestep_loop 0 f k = Inr ()"
| "timestep_loop (Suc t) f k =
     (if f = k \<or> f = 1 \<or> k = 1 then timestep_loop t f k else Inl ValueError)"

definition forecast ::
  "globals \<Rightarrow> fl array3 \<Rightarrow> fl array3 \<Rightarrow> int \<Rightarrow> nat \<Rightarrow> bool \<Rightarrow> nat \<Rightarrow> string \<Rightarrow> real \<Rightarrow> nat \<Rightarrow>
   error + (fl array3 list) returned" where
  "forecast g precip_fields advection_field num_timesteps ari_order add_perturbations
     num_ens_members kernel_type interp_window_radius num_workers =
     bind_err (load_global g ''num_features'') (\<lambda>num_features.
     bind_err (case num_features of
                 PyInt k \<Rightarrow> (if k < 0 then Inl ValueError else Inr (nat k))
               | _ \<Rightarrow> Inl TypeError) (\<lambda>k.
     bind_err (load_global g ''feature_coords'') (\<lambda>feature_coords.
     bind_err (load_global g ''window_radii'') (\<lambda>window_radii.
     bind_err (case (feature_coords, window_radii) of
                 (PyCoords cs, PyFloats rs) \<Rightarrow>
                   compute_window_weights cs (height precip_fields) (width precip_fields) rs
               | _ \<Rightarrow> Inl TypeError) (\<lambda>window_weights.
     bind_err (timestep_loop (nat num_timesteps) (length window_weights) k) (\<lambda>_.
     Inr ReturnsNone))))))"

text \<open>A valid input of the smallest size: three \<open>2 \<times> 2\<close> fields for order one, a
  \<open>2 \<times> 2\<close> advection field, one time step.\<close>

definition precip3 :: "fl array3" where
  "precip3 = \<lparr>depth = 3, height = 2, width = 2, dat3 = replicate 12 (Some 1)\<rparr>"

definition advection0 :: "fl array3" where
  "advection0 = \<lparr>depth = 2, height = 2, width = 2, dat3 = replicate 8 (Some 0)\<rparr>"

section \<open>Properties\<close>

subsection \<open>Boolean-mask indexing\<close>

lemma length_mask_select:
  "length ms = length xs \<Longrightarrow> length (mask_select ms xs) = count_true ms"
  by (induction ms xs rule: mask_select.induct) (auto simp: count_true_def)

lemma length_mask_assign [simp]: "length (mask_assign ms vs xs) = length xs"
  by (induction ms vs xs rule: mask_assign.induct) simp_all

lemma mask_assign_select:
  "length ms = length xs \<Longrightarrow> length ys = length xs \<Longrightarrow>
   mask_assign ms (mask_select ms ys) xs =
     map (\<lambda>(m, y, x). if m then y else x) (zip ms (zip ys xs))"
proof (induction ms arbitrary: xs ys)
  case Nil
  then show ?case by simp
next
  case (Cons m ms)
  then obtain x xs' y ys' where xs: "xs = x # xs'" and ys: "ys = y # ys'"
    by (metis length_Suc_conv)
  show ?case
  proof (cases m)
    case True
    with Cons xs ys show ?thesis by simp
  next
    case False
    have *: "mask_assign (False # ms) vs (x # xs') = x # mask_assign ms vs xs'" for vs
      by (cases vs) simp_all
    from False Cons xs ys show ?thesis by (simp add: *)
  qed
qed

lemma mask_select_map2:
  "length xs = length ms \<Longrightarrow> length ys = length ms \<Longrightarrow>
   map (\<lambda>(x, y). f x y) (zip (mask_select ms xs) (mask_select ms ys)) =
     mask_select ms (map (\<lambda>(x, y). f x y) (zip xs ys))"
proof (induction ms arbitrary: xs ys)
  case Nil
  then show ?case by simp
next
  case (Cons m ms)
  then obtain x xs' y ys' where "xs = x # xs'" "ys = y # ys'"
    by (metis length_Suc_conv)
  with Cons show ?case by simp
qed


lemma fill_zero_filled:
  "fill_where (invert (isfinite field)) (Some 0) field = Inr (zero_filled field)"
proof -
  have "map (\<lambda>(b, x). if b then Some 0 else x) (zip (map Not (map (\<lambda>v. v \<noteq> None) xs)) xs)
        = map (\<lambda>v. case v of None \<Rightarrow> Some 0 | Some x \<Rightarrow> Some x) xs" for xs :: "fl list"
    by (induction xs) (auto split: option.splits)
  then show ?thesis
    by (cases field) (simp add: fill_where_def invert_def isfinite_def zero_filled_def
        map_array_def same_shape_def)
qed

lemma astype_float_isfinite: "astype_float (isfinite field) = finiteness_mask field"
  by (auto simp: astype_float_def isfinite_def finiteness_mask_def map_array_def
      split: option.splits)

lemma map_array_sel [simp]:
  "nrows (map_array f a) = nrows a" "ncols (map_array f a) = ncols a"
  "dat (map_array f a) = map f (dat a)"
  by (simp_all add: map_array_def)

lemma zero_filled_shape [simp]:
  "nrows (zero_filled a) = nrows a" "ncols (zero_filled a) = ncols a"
  by (simp_all add: zero_filled_def)

lemma finiteness_mask_shape [simp]:
  "nrows (finiteness_mask a) = nrows a" "ncols (finiteness_mask a) = ncols a"
  by (simp_all add: finiteness_mask_def)

lemma convolve_same_shape [simp]:
  "nrows (convolve_same a k) = nrows a" "ncols (convolve_same a k) = ncols a"
  "length (dat (convolve_same a k)) = nrows a * ncols a"
  by (simp_all add: convolve_same_def)


lemma masked_convolution_value:
  assumes "wf2 field"
  shows "masked_convolution field kern =
    Inr \<lparr>nrows = nrows field, ncols = ncols field,
         dat = map (\<lambda>(v, a, b). masked_value v a b)
                 (zip (dat field)
                   (zip (dat (convolve_same (zero_filled field) kern))
                        (dat (convolve_same (finiteness_mask field) kern))))\<rparr>"
proof -
  let ?ms = "map (\<lambda>v. v \<noteq> None) (dat field)"
  let ?n = "nrows field * ncols field"
  let ?c1 = "dat (convolve_same (zero_filled field) kern)"
  let ?c2 = "dat (convolve_same (finiteness_mask field) kern)"
  let ?nan = "replicate ?n (None :: fl)"
  have len: "length (dat field) = ?n" using assms by (simp add: wf2_def)
  have l1: "length ?c1 = ?n" by simp
  have l2: "length ?c2 = ?n" by simp
  let ?d1 = "mask_assign ?ms (mask_select ?ms ?c1) ?nan"
  have d1: "?d1 = map (\<lambda>(m, y, x). if m then y else x) (zip ?ms (zip ?c1 ?nan))"
    by (rule mask_assign_select) (simp_all add: len l1)
  have ld1: "length ?d1 = ?n" by simp
  have q: "map (\<lambda>(x, y). fdiv x y) (zip (mask_select ?ms ?d1) (mask_select ?ms ?c2))
        = mask_select ?ms (map (\<lambda>(x, y). fdiv x y) (zip ?d1 ?c2))"
    by (rule mask_select_map2) (simp_all add: ld1 l2 len)
  have fin: "mask_assign ?ms (mask_select ?ms (map (\<lambda>(x, y). fdiv x y) (zip ?d1 ?c2))) ?d1
        = map (\<lambda>(m, y, x). if m then y else x)
            (zip ?ms (zip (map (\<lambda>(x, y). fdiv x y) (zip ?d1 ?c2)) ?d1))"
    by (rule mask_assign_select) (simp_all add: ld1 l2 len)
  have pt: "map (\<lambda>(m, y, x). if m then y else x)
            (zip ?ms (zip (map (\<lambda>(x, y). fdiv x y) (zip ?d1 ?c2)) ?d1))
        = map (\<lambda>(v, a, b). masked_value v a b) (zip (dat field) (zip ?c1 ?c2))"
    unfolding d1
    by (rule nth_equalityI) (auto simp: len l1 l2 masked_value_def)
  have shp: "same_shape (isfinite field) (convolve_same (zero_filled field) kern)"
       "same_shape (isfinite field) (convolve_same (finiteness_mask field) kern)"
       "same_shape (isfinite field) (nan_like (zero_filled field))"
    by (simp_all add: same_shape_def isfinite_def map_array_def zero_filled_def
        finiteness_mask_def nan_like_def)
  have cnt1: "length (mask_select ?ms ?c1) = count_true ?ms"
    by (rule length_mask_select) (simp add: len l1)
  have cnt2: "length (mask_select ?ms ?d1) = count_true ?ms"
    by (rule length_mask_select) (simp add: len ld1)
  have cnt3: "length (mask_select ?ms ?c2) = count_true ?ms"
    by (rule length_mask_select) (simp add: len l2)
  have cnt4: "length (mask_select ?ms (map (\<lambda>(x, y). fdiv x y) (zip ?d1 ?c2))) = count_true ?ms"
    by (rule length_mask_select) (simp add: len l2 ld1)
  show ?thesis
    unfolding masked_convolution_def Let_def fill_zero_filled astype_float_isfinite
    using shp cnt1 cnt2 cnt3 cnt4 q fin pt
    by (simp add: bind_err_def select_where_def assign_where_def divide1_def
        isfinite_def map_array_def nan_like_def zero_filled_def same_shape_def)
qed


lemma flat_index_less:
  fixes i j m n :: nat
  assumes "i < m" "j < n"
  shows "i * n + j < m * n"
proof -
  have "i * n + j < i * n + n" using assms by simp
  also have "\<dots> = Suc i * n" by simp
  also have "\<dots> \<le> m * n" using assms by (intro mult_le_mono1) simp
  finally show ?thesis .
qed

lemma fdiv_one [simp]: "fdiv a (Some 1) = a"
  by (cases a) (simp_all add: fdiv_def)



lemma no_missing_zero_filled: "no_missing a \<Longrightarrow> zero_filled a = a"
  by (cases a) (auto simp: no_missing_def zero_filled_def map_array_def
      intro!: map_idI split: option.splits)

lemma no_missing_finiteness_mask: "no_missing a \<Longrightarrow> finiteness_mask a = ones_like a"
  by (auto simp: no_missing_def finiteness_mask_def ones_like_def map_array_def
      split: option.splits)

subsection \<open>Convolutions of the example arrays\<close>


lemma upt_0_3: "[0..<3] = [0, 1, 2]"
  by (simp add: upt_rec)

lemma upt_0_4: "[0..<4] = [0, 1, 2, 3]"
  by (simp add: upt_rec)

lemmas conv_eval = convolve_same_def conv_full_at_def padded_def at2_def fsum_def fadd_def
  fmul_def fdiv_def map_array_def upt_0_3 upt_0_4

lemma conv_ones3: "convolve_same field_ones3 kernel_box3 =
    \<lparr>nrows = 1, ncols = 3, dat = [Some (2/3), Some 1, Some (2/3)]\<rparr>"
  by (simp add: conv_eval field_ones3_def kernel_box3_def)

lemma conv_ones_like_ones3: "convolve_same (ones_like field_ones3) kernel_box3 =
    \<lparr>nrows = 1, ncols = 3, dat = [Some (2/3), Some 1, Some (2/3)]\<rparr>"
  by (simp add: conv_eval ones_like_def field_ones3_def kernel_box3_def)

lemma conv_gap_zero_filled: "convolve_same (zero_filled field_gap) kernel_box3 =
    \<lparr>nrows = 2, ncols = 2, dat = [Some 1, Some 1, Some 1, Some 1]\<rparr>"
  by (simp add: conv_eval zero_filled_def field_gap_def kernel_box3_def)

lemma conv_gap_mask: "convolve_same (finiteness_mask field_gap) kernel_box3 =
    \<lparr>nrows = 2, ncols = 2, dat = [Some (1/3), Some (1/3), Some (2/3), Some (2/3)]\<rparr>"
  by (simp add: conv_eval finiteness_mask_def field_gap_def kernel_box3_def)

subsection \<open>Masked convolution: what it returns\<close>

text \<open>
  Claim C3. For every two-dimensional field, whatever non-finite entries it has, and
  every kernel, \<open>_masked_convolution\<close> returns a field of the same shape; a position
  that was non-finite in the field is non-finite in the result, and a finite position
  holds the convolution of the zero-filled field divided by the convolution of the 0/1
  finiteness mask at that position.
\<close>

theorem masked_convolution_spec:
  assumes "wf2 field"
  shows "\<exists>out. masked_convolution field kern = Inr out \<and>
           nrows out = nrows field \<and> ncols out = ncols field \<and> wf2 out \<and>
           (\<forall>i < nrows field. \<forall>j < ncols field.
              (at2 field i j = None \<longrightarrow> at2 out i j = None) \<and>
              (at2 field i j \<noteq> None \<longrightarrow>
                 at2 out i j = fdiv (at2 (convolve_same (zero_filled field) kern) i j)
                                    (at2 (convolve_same (finiteness_mask field) kern) i j)))"
proof -
  let ?c1 = "convolve_same (zero_filled field) kern"
  let ?c2 = "convolve_same (finiteness_mask field) kern"
  let ?out = "\<lparr>nrows = nrows field, ncols = ncols field,
         dat = map (\<lambda>(v, a, b). masked_value v a b)
                 (zip (dat field) (zip (dat ?c1) (dat ?c2)))\<rparr>"
  have len: "length (dat field) = nrows field * ncols field"
    using assms by (simp add: wf2_def)
  have val: "masked_convolution field kern = Inr ?out"
    by (rule masked_convolution_value [OF assms])
  have pt: "at2 ?out i j = masked_value (at2 field i j) (at2 ?c1 i j) (at2 ?c2 i j)"
    if "i < nrows field" "j < ncols field" for i j
    using flat_index_less [OF that] len by (simp add: at2_def)
  show ?thesis
    using val pt len by (intro exI [of _ ?out]) (simp add: wf2_def masked_value_def)
qed

theorem masked_convolution_spec_witness:
  "wf2 field_gap \<and>
   (\<exists>out. masked_convolution field_gap kernel_box3 = Inr out \<and>
          nrows out = 2 \<and> ncols out = 2 \<and>
          at2 out 0 0 = Some 3 \<and> at2 out 0 1 = None \<and> at2 out 1 1 = Some (3/2))"
proof -
  have w: "wf2 field_gap" by (simp add: wf2_def field_gap_def)
  from masked_convolution_spec [OF w, of kernel_box3] obtain out where
    r: "masked_convolution field_gap kernel_box3 = Inr out"
    and s: "nrows out = nrows field_gap" "ncols out = ncols field_gap"
    and p: "\<And>i j. i < nrows field_gap \<Longrightarrow> j < ncols field_gap \<Longrightarrow>
         (at2 field_gap i j = None \<longrightarrow> at2 out i j = None) \<and>
         (at2 field_gap i j \<noteq> None \<longrightarrow>
            at2 out i j = fdiv (at2 (convolve_same (zero_filled field_gap) kernel_box3) i j)
                               (at2 (convolve_same (finiteness_mask field_gap) kernel_box3) i j))"
    by blast
  have "at2 out 0 0 = Some 3" using p [of 0 0]
    by (simp add: conv_gap_zero_filled conv_gap_mask) (simp add: field_gap_def at2_def fdiv_def)
  moreover have "at2 out 0 1 = None" using p [of 0 1]
    by (simp add: field_gap_def at2_def)
  moreover have "at2 out 1 1 = Some (3/2)" using p [of 1 1]
    by (simp add: conv_gap_zero_filled conv_gap_mask) (simp add: field_gap_def at2_def fdiv_def)
  ultimately show ?thesis using w r s by (simp add: field_gap_def)
qed

text \<open>
  Claim C4, as stated: on a field without missing values the masked convolution equals
  the plain same-size convolution with zero padding at every position. It does not:
  on a row of three ones with the normalised box kernel the plain convolution is
  \<open>2/3\<close> at both ends, where a third of the kernel lies on the padding, and the
  masked convolution divides that by the convolved mask, \<open>2/3\<close>, and returns \<open>1\<close>.
\<close>

theorem masked_convolution_plain_counterexample:
  "wf2 field_ones3 \<and> no_missing field_ones3 \<and>
   masked_convolution field_ones3 kernel_box3 = Inr field_ones3 \<and>
   convolve_same field_ones3 kernel_box3 =
     \<lparr>nrows = 1, ncols = 3, dat = [Some (2/3), Some 1, Some (2/3)]\<rparr> \<and>
   masked_convolution field_ones3 kernel_box3 \<noteq> Inr (convolve_same field_ones3 kernel_box3)"
proof -
  have w: "wf2 field_ones3" by (simp add: wf2_def field_ones3_def)
  have z: "zero_filled field_ones3 = field_ones3"
    by (simp add: zero_filled_def map_array_def field_ones3_def)
  have m: "finiteness_mask field_ones3 = ones_like field_ones3"
    by (simp add: finiteness_mask_def ones_like_def map_array_def field_ones3_def)
  have v: "masked_convolution field_ones3 kernel_box3 = Inr field_ones3"
    unfolding masked_convolution_value [OF w] z m conv_ones3 conv_ones_like_ones3
    by (simp add: field_ones3_def masked_value_def fdiv_def)
  show ?thesis
    using w v conv_ones3 by (simp add: no_missing_def field_ones3_def)
qed

text \<open>
  Claim C4, amended. On a field without missing values the masked convolution is, at
  every position, the plain convolution divided by the convolution of the all-ones
  array with the kernel; it equals the plain convolution at every position where that
  divisor is \<open>1\<close>.
\<close>

theorem masked_convolution_no_missing:
  assumes "wf2 field" and "no_missing field"
  shows "\<exists>out. masked_convolution field kern = Inr out \<and>
           nrows out = nrows field \<and> ncols out = ncols field \<and>
           (\<forall>i < nrows field. \<forall>j < ncols field.
              at2 out i j = fdiv (at2 (convolve_same field kern) i j)
                                 (at2 (convolve_same (ones_like field) kern) i j) \<and>
              (at2 (convolve_same (ones_like field) kern) i j = Some 1 \<longrightarrow>
                 at2 out i j = at2 (convolve_same field kern) i j))"
proof -
  let ?c1 = "convolve_same field kern"
  let ?c2 = "convolve_same (ones_like field) kern"
  let ?out = "\<lparr>nrows = nrows field, ncols = ncols field,
         dat = map (\<lambda>(v, a, b). masked_value v a b)
                 (zip (dat field) (zip (dat ?c1) (dat ?c2)))\<rparr>"
  have len: "length (dat field) = nrows field * ncols field"
    using assms by (simp add: wf2_def)
  have val: "masked_convolution field kern = Inr ?out"
    using masked_convolution_value [OF assms(1), of kern]
    by (simp add: no_missing_zero_filled [OF assms(2)] no_missing_finiteness_mask [OF assms(2)])
  have fin: "at2 field i j \<noteq> None" if "i < nrows field" "j < ncols field" for i j
    using flat_index_less [OF that] len assms(2) by (simp add: at2_def no_missing_def)
  have pt: "at2 ?out i j = fdiv (at2 ?c1 i j) (at2 ?c2 i j)"
    if "i < nrows field" "j < ncols field" for i j
    using flat_index_less [OF that] len fin [OF that]
    by (simp add: at2_def masked_value_def ones_like_def)
  show ?thesis
    using val pt by (intro exI [of _ ?out]) simp
qed

theorem masked_convolution_no_missing_witness:
  "wf2 field_ones3 \<and> no_missing field_ones3 \<and>
   (\<exists>out. masked_convolution field_ones3 kernel_box3 = Inr out \<and>
          at2 out 0 0 = Some 1 \<and> at2 (convolve_same field_ones3 kernel_box3) 0 0 = Some (2/3) \<and>
          at2 out 0 1 = at2 (convolve_same field_ones3 kernel_box3) 0 1)"
proof -
  have w: "wf2 field_ones3" by (simp add: wf2_def field_ones3_def)
  have n: "no_missing field_ones3" by (simp add: no_missing_def field_ones3_def)
  from masked_convolution_no_missing [OF w n, of kernel_box3] obtain out where
    r: "masked_convolution field_ones3 kernel_box3 = Inr out"
    and p: "\<And>i j. i < nrows field_ones3 \<Longrightarrow> j < ncols field_ones3 \<Longrightarrow>
         at2 out i j = fdiv (at2 (convolve_same field_ones3 kernel_box3) i j)
                            (at2 (convolve_same (ones_like field_ones3) kernel_box3) i j) \<and>
         (at2 (convolve_same (ones_like field_ones3) kernel_box3) i j = Some 1 \<longrightarrow>
            at2 out i j = at2 (convolve_same field_ones3 kernel_box3) i j)"
    by blast
  have "at2 out 0 0 = Some 1" using p [of 0 0]
    by (simp add: conv_ones3 conv_ones_like_ones3) (simp add: field_ones3_def at2_def fdiv_def)
  moreover have "at2 out 0 1 = at2 (convolve_same field_ones3 kernel_box3) 0 1"
    using p [of 0 1]
    by (simp add: conv_ones_like_ones3) (simp add: field_ones3_def at2_def)
  moreover have "at2 (convolve_same field_ones3 kernel_box3) 0 0 = Some (2/3)"
    by (simp add: conv_ones3 at2_def)
  ultimately show ?thesis using w n r by blast
qed

subsection \<open>Masked convolution: the caller's arrays\<close>

text \<open>The function on the store returns what the function on values returns, in a new
  array; the only other array it adds is the zero-filled copy of the field.\<close>

lemma masked_convolution_st_pure:
  assumes "field < length h" "kern < length h"
  shows "masked_convolution_st h field kern =
     bind_err (masked_convolution (h ! field) (h ! kern))
       (\<lambda>out. Inr (h @ [zero_filled (h ! field), out], Suc (length h)))"
  using assms
  unfolding masked_convolution_st_def masked_convolution_def
  by (simp add: Let_def alloc_def bind_err_def nth_append list_update_append
      fill_zero_filled split: sum.splits)

text \<open>
  Claim C10. \<open>_masked_convolution\<close> leaves both of its arguments as they were: every
  array that existed before the call, the field with its non-finite entries and the
  kernel among them, is the same after it, and the result is an array that did not
  exist before.
\<close>

theorem masked_convolution_frame:
  assumes "field < length h" and "kern < length h" and "wf2 (h ! field)"
  shows "\<exists>h' out. masked_convolution_st h field kern = Inr (h', out) \<and>
           length h \<le> out \<and> out < length h' \<and>
           (\<forall>a < length h. h' ! a = h ! a) \<and>
           h' ! field = h ! field \<and> h' ! kern = h ! kern \<and>
           masked_convolution (h ! field) (h ! kern) = Inr (h' ! out)"
proof -
  from masked_convolution_value [OF assms(3), of "h ! kern"]
  obtain res where res: "masked_convolution (h ! field) (h ! kern) = Inr res"
    by blast
  let ?h' = "h @ [zero_filled (h ! field), res]"
  have run: "masked_convolution_st h field kern = Inr (?h', Suc (length h))"
    using masked_convolution_st_pure [OF assms(1,2)] res by (simp add: bind_err_def)
  have old: "?h' ! a = h ! a" if "a < length h" for a
    using that by (simp add: nth_append)
  have new: "?h' ! Suc (length h) = res"
    by (simp add: nth_append)
  show ?thesis
    using run old new res assms(1,2)
    by (intro exI [of _ ?h'] exI [of _ "Suc (length h)"]) simp
qed

theorem masked_convolution_frame_witness:
  "(0::nat) < length [field_gap, kernel_box3] \<and> (1::nat) < length [field_gap, kernel_box3] \<and>
   wf2 ([field_gap, kernel_box3] ! 0) \<and>
   (\<exists>h' out. masked_convolution_st [field_gap, kernel_box3] 0 1 = Inr (h', out) \<and>
      2 \<le> out \<and> h' ! 0 = field_gap \<and> h' ! 1 = kernel_box3)"
proof -
  have a: "(0::nat) < length [field_gap, kernel_box3]" by simp
  have b: "(1::nat) < length [field_gap, kernel_box3]" by simp
  have w: "wf2 ([field_gap, kernel_box3] ! 0)" by (simp add: wf2_def field_gap_def)
  from masked_convolution_frame [OF a b w] obtain h' out where
    "masked_convolution_st [field_gap, kernel_box3] 0 1 = Inr (h', out)"
    "length [field_gap, kernel_box3] \<le> out"
    "h' ! 0 = [field_gap, kernel_box3] ! 0" "h' ! 1 = [field_gap, kernel_box3] ! 1"
    by blast
  then show ?thesis using w by auto
qed

subsection \<open>The bounding box in closed form\<close>

lemma extent_sq:
  fixes A B :: real
  assumes "A \<noteq> 0 \<or> B \<noteq> 0"
  shows "fabs (map_option (\<lambda>a. A * cos a - B * sin a) (np_arctan_div (- B) A)) =
         Some (sqrt (A\<^sup>2 + B\<^sup>2))"
proof (cases "A = 0")
  case True
  with assms have B: "B \<noteq> 0" by simp
  show ?thesis
  proof (cases "B < 0")
    case neg: True
    then have "np_arctan_div (- B) A = Some (pi / 2)"
      using True by (simp add: np_arctan_div_def)
    then show ?thesis using True neg by (simp add: fabs_def)
  next
    case pos: False
    then have "np_arctan_div (- B) A = Some (- (pi / 2))"
      using True B by (simp add: np_arctan_div_def)
    then show ?thesis using True pos by (simp add: fabs_def)
  qed
next
  case False
  let ?t = "- B / A"
  have s: "sqrt (1 + ?t\<^sup>2) = sqrt (A\<^sup>2 + B\<^sup>2) / \<bar>A\<bar>"
  proof -
    have "1 + ?t\<^sup>2 = (A\<^sup>2 + B\<^sup>2) / A\<^sup>2" using False by (simp add: field_simps power2_eq_square)
    then show ?thesis by (simp add: real_sqrt_divide)
  qed
  have pos: "sqrt (A\<^sup>2 + B\<^sup>2) > 0" using False by (simp add: sum_power2_gt_zero_iff)
  define q where "q = sqrt (1 + ?t\<^sup>2)"
  have "A * cos (arctan ?t) - B * sin (arctan ?t) = A * (1 / q) - B * (?t / q)"
    by (simp only: cos_arctan sin_arctan q_def)
  also have "\<dots> = (A - B * ?t) / q"
    by (simp add: add_divide_distrib)
  also have "\<dots> = (A - B * ?t) / sqrt (1 + ?t\<^sup>2)"
    by (simp only: q_def)
  finally have "A * cos (arctan ?t) - B * sin (arctan ?t) = (A - B * ?t) / sqrt (1 + ?t\<^sup>2)" .
  also have "A - B * ?t = (A\<^sup>2 + B\<^sup>2) / A" using False by (simp add: field_simps power2_eq_square)
  also have "(A\<^sup>2 + B\<^sup>2) / A / sqrt (1 + ?t\<^sup>2) = (A\<^sup>2 + B\<^sup>2) / sqrt (A\<^sup>2 + B\<^sup>2) * (\<bar>A\<bar> / A)"
    unfolding s using False pos by (simp add: field_simps)
  also have "(A\<^sup>2 + B\<^sup>2) / sqrt (A\<^sup>2 + B\<^sup>2) = sqrt (A\<^sup>2 + B\<^sup>2)"
    using pos by (metis real_div_sqrt less_eq_real_def sum_power2_ge_zero)
  finally have "\<bar>A * cos (arctan ?t) - B * sin (arctan ?t)\<bar> = sqrt (A\<^sup>2 + B\<^sup>2) * \<bar>\<bar>A\<bar> / A\<bar>"
    using pos by (simp add: abs_mult)
  moreover have "\<bar>\<bar>A\<bar> / A\<bar> = 1" using False by simp
  ultimately show ?thesis using False by (simp add: np_arctan_div_def fabs_def)
qed




lemma abs_sin_one: "cos (x::real) = 0 \<Longrightarrow> \<bar>sin x\<bar> = 1"
  using sin_cos_squared_add [of x] by (auto simp: power2_eq_1_iff)

lemma extent_vertical:
  fixes a b x :: real
  assumes "cos x = 0"
  shows "sqrt ((a * cos x)\<^sup>2 + (b * sin x)\<^sup>2) = \<bar>b\<bar>"
    and "sqrt ((a * sin x)\<^sup>2 + (b * cos x)\<^sup>2) = \<bar>a\<bar>"
proof -
  have "(sin x)\<^sup>2 = 1" using abs_sin_one [OF assms] by (metis abs_1 power2_abs one_power2)
  then show "sqrt ((a * cos x)\<^sup>2 + (b * sin x)\<^sup>2) = \<bar>b\<bar>"
    and "sqrt ((a * sin x)\<^sup>2 + (b * cos x)\<^sup>2) = \<bar>a\<bar>"
    using assms by (simp_all add: power_mult_distrib)
qed

lemma sin_cos_quarter_turn: "sin (x + pi / 2) = cos (x::real)" "cos (x + pi / 2) = - sin x"
  by (simp_all add: sin_add cos_add)

lemma sin_cos_not_both_zero: "sin (x::real) \<noteq> 0 \<or> cos x \<noteq> 0"
  using sin_cos_squared_add [of x] by (auto simp: power2_eq_square)

lemma bbox_general:
  assumes g: "general_angle (phi / 180 * pi)"
    and nz: "sigma1 \<noteq> 0" "sigma2 \<noteq> 0" "cutoff \<noteq> 0"
  shows "compute_ellipse_bbox phi sigma1 sigma2 cutoff =
     (Some (- extent_h phi sigma1 sigma2 cutoff), Some (- extent_w phi sigma1 sigma2 cutoff),
      Some (extent_h phi sigma1 sigma2 cutoff), Some (extent_w phi sigma1 sigma2 cutoff))"
proof -
  let ?p = "phi / 180 * pi"
  let ?r1 = "cutoff * sigma1" and ?r2 = "cutoff * sigma2"
  have r: "?r1 \<noteq> 0" "?r2 \<noteq> 0" using nz by simp_all
  have w: "fabs (map_option (\<lambda>a. ?r1 * cos a * cos ?p - ?r2 * sin a * sin ?p)
              (np_arctan_div (- ?r2 * sin ?p) (?r1 * cos ?p))) = Some (extent_w phi sigma1 sigma2 cutoff)"
  proof -
    have "?r1 * cos ?p \<noteq> 0 \<or> ?r2 * sin ?p \<noteq> 0"
      using r sin_cos_not_both_zero [of ?p] by auto
    from extent_sq [OF this]
    have "fabs (map_option (\<lambda>a. ?r1 * cos ?p * cos a - ?r2 * sin ?p * sin a)
              (np_arctan_div (- (?r2 * sin ?p)) (?r1 * cos ?p))) = Some (extent_w phi sigma1 sigma2 cutoff)"
      by (simp add: extent_w_def)
    moreover have "(\<lambda>a. ?r1 * cos ?p * cos a - ?r2 * sin ?p * sin a)
         = (\<lambda>a. ?r1 * cos a * cos ?p - ?r2 * sin a * sin ?p)"
      by (rule ext) (simp add: mult_ac)
    ultimately show ?thesis by simp
  qed
  have h: "fabs (map_option (\<lambda>a. ?r1 * cos a * sin ?p + ?r2 * sin a * cos ?p)
              (np_arctan_div (?r2 * cos ?p) (?r1 * sin ?p))) = Some (extent_h phi sigma1 sigma2 cutoff)"
  proof -
    have "?r1 * sin ?p \<noteq> 0 \<or> - (?r2 * cos ?p) \<noteq> 0"
      using r sin_cos_not_both_zero [of ?p] by auto
    from extent_sq [OF this]
    have "fabs (map_option (\<lambda>a. ?r1 * sin ?p * cos a + ?r2 * cos ?p * sin a)
              (np_arctan_div (?r2 * cos ?p) (?r1 * sin ?p))) = Some (extent_h phi sigma1 sigma2 cutoff)"
      by (simp add: extent_h_def)
    moreover have "(\<lambda>a. ?r1 * sin ?p * cos a + ?r2 * cos ?p * sin a)
         = (\<lambda>a. ?r1 * cos a * sin ?p + ?r2 * sin a * cos ?p)"
      by (rule ext) (simp add: mult_ac)
    ultimately show ?thesis by simp
  qed
  show ?thesis
    unfolding compute_ellipse_bbox_def Let_def using g w h
    by (simp add: fneg_def)
qed

lemma bbox_vertical:
  assumes c: "cos (phi / 180 * pi) = 0" and g: "\<not> general_angle (phi / 180 * pi)"
  shows "compute_ellipse_bbox phi sigma1 sigma2 cutoff =
     (Some (- extent_h phi sigma1 sigma2 cutoff), Some (- extent_w phi sigma1 sigma2 cutoff),
      Some (extent_h phi sigma1 sigma2 cutoff), Some (extent_w phi sigma1 sigma2 cutoff))"
proof -
  let ?p = "phi / 180 * pi"
  have "extent_w phi sigma1 sigma2 cutoff = \<bar>cutoff * sigma2\<bar>"
    unfolding extent_w_def by (rule extent_vertical [OF c])
  then have w: "extent_w phi sigma1 sigma2 cutoff = \<bar>sigma2 * cutoff\<bar>"
    by (simp add: mult.commute)
  have "extent_h phi sigma1 sigma2 cutoff = \<bar>cutoff * sigma1\<bar>"
    unfolding extent_h_def by (rule extent_vertical [OF c])
  then have h: "extent_h phi sigma1 sigma2 cutoff = \<bar>sigma1 * cutoff\<bar>"
    by (simp add: mult.commute)
  show ?thesis
    unfolding compute_ellipse_bbox_def Let_def using g
    by (simp add: fneg_def fabs_def w h)
qed

lemma bbox_exact:
  assumes "exact_angle phi" and "sigma1 \<noteq> 0" "sigma2 \<noteq> 0" "cutoff \<noteq> 0"
  shows "compute_ellipse_bbox phi sigma1 sigma2 cutoff =
     (Some (- extent_h phi sigma1 sigma2 cutoff), Some (- extent_w phi sigma1 sigma2 cutoff),
      Some (extent_h phi sigma1 sigma2 cutoff), Some (extent_w phi sigma1 sigma2 cutoff))"
  using assms bbox_general bbox_vertical unfolding exact_angle_def by blast

lemma extent_rotate:
  "extent_w (phi + 90) sigma2 sigma1 cutoff = extent_w phi sigma1 sigma2 cutoff"
  "extent_h (phi + 90) sigma2 sigma1 cutoff = extent_h phi sigma1 sigma2 cutoff"
proof -
  have e: "(phi + 90) / 180 * pi = phi / 180 * pi + pi / 2" by (simp add: field_simps)
  show "extent_w (phi + 90) sigma2 sigma1 cutoff = extent_w phi sigma1 sigma2 cutoff"
    unfolding extent_w_def e sin_cos_quarter_turn
    by (simp add: power_mult_distrib add.commute)
  show "extent_h (phi + 90) sigma2 sigma1 cutoff = extent_h phi sigma1 sigma2 cutoff"
    unfolding extent_h_def e sin_cos_quarter_turn
    by (simp add: power_mult_distrib add.commute)
qed

lemma near_vertical_angles:
  "(90 + 1 / 25000) / 180 * pi = pi / 2 + pi / 4500000"
  "(180 + 1 / 25000) / 180 * pi = pi + pi / 4500000"
  by (simp_all add: field_simps)

lemma near_vertical_not_general: "\<not> general_angle ((90 + 1 / 25000) / 180 * pi)"
  unfolding near_vertical_angles general_angle_def using pi_less_4 pi_gt_zero by simp

lemma past_horizontal_general: "general_angle ((180 + 1 / 25000) / 180 * pi)"
  unfolding near_vertical_angles general_angle_def using pi_ge_two by (simp add: abs_if)

lemma near_vertical_bbox:
  "compute_ellipse_bbox (90 + 1 / 25000) 1 2 1 = (Some (- 1), Some (- 2), Some 1, Some 2)"
  unfolding compute_ellipse_bbox_def Let_def using near_vertical_not_general
  by (simp add: fneg_def fabs_def)

lemma tilted_extents:
  "extent_w (180 + 1 / 25000) 2 1 1 \<noteq> 2" "extent_h (180 + 1 / 25000) 2 1 1 \<noteq> 2"
proof -
  let ?e = "pi / 4500000"
  have e: "0 < ?e" "?e < pi / 2" "?e < pi" using pi_gt_zero by simp_all
  have s: "0 < sin ?e" by (rule sin_gt_zero [OF e(1) e(3)])
  have c: "0 < cos ?e" by (rule cos_gt_zero [OF e(1) e(2)])
  have one: "(sin ?e)\<^sup>2 + (cos ?e)\<^sup>2 = 1" by (rule sin_cos_squared_add)
  have s2: "0 < (sin ?e)\<^sup>2" using s by simp
  have c2: "0 < (cos ?e)\<^sup>2" using c by simp
  have w: "(extent_w (180 + 1 / 25000) 2 1 1)\<^sup>2 = 4 * (cos ?e)\<^sup>2 + (sin ?e)\<^sup>2"
    unfolding extent_w_def near_vertical_angles sin_add cos_add by (simp add: power_mult_distrib)
  have h: "(extent_h (180 + 1 / 25000) 2 1 1)\<^sup>2 = 4 * (sin ?e)\<^sup>2 + (cos ?e)\<^sup>2"
    unfolding extent_h_def near_vertical_angles sin_add cos_add by (simp add: power_mult_distrib)
  show "extent_w (180 + 1 / 25000) 2 1 1 \<noteq> 2"
  proof
    assume "extent_w (180 + 1 / 25000) 2 1 1 = 2"
    with w have "4 * (cos ?e)\<^sup>2 + (sin ?e)\<^sup>2 = 4" by simp
    with one s2 show False by linarith
  qed
  show "extent_h (180 + 1 / 25000) 2 1 1 \<noteq> 2"
  proof
    assume "extent_h (180 + 1 / 25000) 2 1 1 = 2"
    with h have "4 * (sin ?e)\<^sup>2 + (cos ?e)\<^sup>2 = 4" by simp
    with one c2 show False by linarith
  qed
qed

text \<open>
  Claim C9, as stated: for every angle and positive scales and cutoff, the box computed
  with the two scales exchanged and the angle turned by 90 degrees is the box of the
  original call, up to exchanging the axes. At \<open>phi = 90 + 1/25000\<close> degrees the
  original call is within the tolerance of the vertical and returns the half-extents
  \<open>(1, 2)\<close> of the upright ellipse, while the turned call takes the general branch and
  returns the half-extents of the slightly tilted one: neither the same box nor the
  box with its axes exchanged.
\<close>

theorem ellipse_bbox_symmetric_counterexample:
  "compute_ellipse_bbox (90 + 1 / 25000 + 90) 2 1 1 \<noteq> compute_ellipse_bbox (90 + 1 / 25000) 1 2 1 \<and>
   compute_ellipse_bbox (90 + 1 / 25000 + 90) 2 1 1 \<noteq>
     swap_axes (compute_ellipse_bbox (90 + 1 / 25000) 1 2 1)"
proof -
  have a: "(90 + 1 / 25000 + 90 :: real) = 180 + 1 / 25000" by simp
  have r: "compute_ellipse_bbox (180 + 1 / 25000) 2 1 1 =
     (Some (- extent_h (180 + 1 / 25000) 2 1 1), Some (- extent_w (180 + 1 / 25000) 2 1 1),
      Some (extent_h (180 + 1 / 25000) 2 1 1), Some (extent_w (180 + 1 / 25000) 2 1 1))"
    by (rule bbox_general [OF past_horizontal_general]) simp_all
  show ?thesis
    unfolding a r near_vertical_bbox using tilted_extents by (simp add: swap_axes_def)
qed

text \<open>
  Claim C9, amended. For positive scales and cutoff, and an angle such that both it and
  the angle turned by 90 degrees are either farther than the tolerance from the
  vertical or exactly vertical, the call with the scales exchanged and the angle turned
  returns the same box as the original call.
\<close>

theorem ellipse_bbox_symmetric:
  assumes "0 < sigma1" "0 < sigma2" "0 < cutoff"
    and "exact_angle phi" "exact_angle (phi + 90)"
  shows "compute_ellipse_bbox (phi + 90) sigma2 sigma1 cutoff =
         compute_ellipse_bbox phi sigma1 sigma2 cutoff"
  using assms by (simp add: bbox_exact extent_rotate)

theorem ellipse_bbox_symmetric_witness:
  "(0::real) < 1 \<and> (0::real) < 2 \<and> (0::real) < 6 \<and> exact_angle 30 \<and> exact_angle (30 + 90) \<and>
   compute_ellipse_bbox (30 + 90) 2 1 6 = compute_ellipse_bbox 30 1 2 6"
proof -
  have g1: "exact_angle 30"
    unfolding exact_angle_def general_angle_def using pi_ge_two pi_less_4
    by (intro disjI1) (simp add: abs_if field_simps)
  have g2: "exact_angle (30 + 90)"
    unfolding exact_angle_def general_angle_def using pi_ge_two pi_less_4
    by (intro disjI1) (simp add: abs_if field_simps)
  have "compute_ellipse_bbox (30 + 90) 2 1 6 = compute_ellipse_bbox 30 1 2 6"
    by (rule ellipse_bbox_symmetric [OF _ _ _ g1 g2]) simp_all
  with g1 g2 show ?thesis by simp
qed

subsection \<open>Kernels: normalisation and odd dimensions\<close>

lemma positive_entries_sum:
  assumes "positive_entries xs"
  shows "\<exists>t \<ge> 0. fsum xs = Some t \<and> (xs \<noteq> [] \<longrightarrow> 0 < t) \<and>
           (\<forall>c. c \<noteq> 0 \<longrightarrow> fsum (map (\<lambda>r. fdiv r (Some c)) xs) = Some (t / c))"
  using assms
proof (induction xs)
  case Nil
  then show ?case by (simp add: fsum_def)
next
  case (Cons v xs)
  then obtain r where r: "0 < r" "v = Some r"
    by (auto simp: positive_entries_def)
  from Cons have "positive_entries xs" by (simp add: positive_entries_def)
  with Cons.IH obtain t where t: "0 \<le> t" "fsum xs = Some t"
    "\<And>c. c \<noteq> 0 \<Longrightarrow> fsum (map (\<lambda>r. fdiv r (Some c)) xs) = Some (t / c)"
    by blast
  have "fsum (v # xs) = Some (r + t)"
    using r t by (simp add: fsum_def fadd_def)
  moreover have "fsum (map (\<lambda>r. fdiv r (Some c)) (v # xs)) = Some ((r + t) / c)" if "c \<noteq> 0" for c
  proof -
    have "fsum (map (\<lambda>r. fdiv r (Some c)) (v # xs))
        = fadd (fdiv v (Some c)) (fsum (map (\<lambda>r. fdiv r (Some c)) xs))"
      by (simp add: fsum_def)
    also have "\<dots> = Some (r / c + t / c)"
      using r t(3) [OF that] that by (simp add: fadd_def fdiv_def)
    finally show ?thesis by (simp add: add_divide_distrib)
  qed
  ultimately show ?case using r t(1)
    by (intro exI [of _ "r + t"]) simp
qed

lemma normalise_sum_one:
  assumes "positive_entries xs" and "xs \<noteq> []"
  shows "fsum (normalise xs) = Some 1"
proof -
  from positive_entries_sum [OF assms(1)] assms(2) obtain t where
    t: "0 < t" "fsum xs = Some t"
    "\<And>c. c \<noteq> 0 \<Longrightarrow> fsum (map (\<lambda>r. fdiv r (Some c)) xs) = Some (t / c)"
    by blast
  from t(3) [of t] t(1) show ?thesis
    by (simp add: normalise_def t(2))
qed

lemma length_normalise [simp]: "length (normalise xs) = length xs"
  by (simp add: normalise_def)

lemma length_mesh [simp]:
  "length (concat (map (\<lambda>yv. map (f yv) xs) ys)) = length ys * length xs"
  by (induction ys) simp_all

lemma positive_mesh:
  assumes "\<And>yv xv. \<exists>r > 0. f yv xv = Some r"
  shows "positive_entries (concat (map (\<lambda>yv. map (f yv) xs) ys))"
  using assms by (auto simp: positive_entries_def)

lemma py_int_symmetric:
  assumes "- 1 < v"
  shows "\<exists>k \<ge> 0. py_int (- v) = - k \<and> py_int v = k"
proof (cases "0 \<le> v")
  case True
  show ?thesis
  proof (cases "v = 0")
    case True
    then show ?thesis by (simp add: py_int_def)
  next
    case False
    with True have "0 < v" by simp
    then have "py_int (- v) = - \<lfloor>v\<rfloor>" "py_int v = \<lfloor>v\<rfloor>" "0 \<le> \<lfloor>v\<rfloor>"
      by (simp_all add: py_int_def ceiling_def)
    then show ?thesis by blast
  qed
next
  case False
  with assms have "py_int v = 0" "py_int (- v) = 0"
    by (simp_all add: py_int_def ceiling_eq_iff floor_eq_iff)
  then show ?thesis by simp
qed

lemma axis_points_symmetric:
  assumes "0 \<le> k"
  shows "odd (length (axis_points (- k) k))"
proof -
  have "length (arange (- k) (k + 1)) = nat (2 * k + 1)"
    by (simp add: arange_def)
  moreover have "odd (nat (2 * k + 1))"
    using assms by (simp add: even_nat_iff)
  ultimately show ?thesis by (simp add: axis_points_def Let_def)
qed


lemma anisotropic_entry_positive:
  assumes "0 < sigma1" "0 < sigma2" "0 \<le> p"
  shows "\<exists>r > 0. anisotropic_entry phi_r sigma1 sigma2 p yv xv = Some r"
  using assms
  by (simp add: anisotropic_entry_def Let_def nonneg_div_def ext_pow_def exp_neg_def)

lemma isotropic_entry_positive:
  assumes "sigma \<noteq> 0"
  shows "\<exists>r > 0. isotropic_entry sigma yv xv = Some r"
  using assms
  by (simp add: isotropic_entry_def sq_div_def ext_half_def exp_neg_def)

lemma bbox_finite:
  assumes "sigma1 \<noteq> 0" "sigma2 \<noteq> 0" "cutoff \<noteq> 0"
  shows "\<exists>H W. 0 \<le> H \<and> 0 \<le> W \<and>
     compute_ellipse_bbox phi sigma1 sigma2 cutoff = (Some (- H), Some (- W), Some H, Some W)"
proof (cases "general_angle (phi / 180 * pi)")
  case True
  have "0 \<le> extent_h phi sigma1 sigma2 cutoff" "0 \<le> extent_w phi sigma1 sigma2 cutoff"
    by (simp_all add: extent_h_def extent_w_def)
  with bbox_general [OF True assms] show ?thesis by blast
next
  case False
  then have "compute_ellipse_bbox phi sigma1 sigma2 cutoff =
     (Some (- \<bar>sigma1 * cutoff\<bar>), Some (- \<bar>sigma2 * cutoff\<bar>),
      Some \<bar>sigma1 * cutoff\<bar>, Some \<bar>sigma2 * cutoff\<bar>)"
    unfolding compute_ellipse_bbox_def Let_def by (simp add: fneg_def fabs_def)
  moreover have "0 \<le> \<bar>sigma1 * cutoff\<bar>" "0 \<le> \<bar>sigma2 * cutoff\<bar>" by simp_all
  ultimately show ?thesis by blast
qed

lemma axis_of_extent:
  assumes "- 1 < v"
  shows "odd (length (axis_points (py_int (- v)) (py_int v)))"
proof -
  from py_int_symmetric [OF assms] obtain k where "0 \<le> k" "py_int (- v) = - k" "py_int v = k"
    by blast
  then show ?thesis using axis_points_symmetric [of k] by simp
qed

lemma kernel_anisotropic_normalised:
  assumes "s1 \<noteq> 0" "s2 \<noteq> 0" "cutoff \<noteq> 0" "0 \<le> p"
  shows "\<exists>k. compute_kernel_anisotropic (Vector (phi # s1 # s2 # p # rest)) cutoff = Inr k \<and>
           wf2 k \<and> odd (nrows k) \<and> odd (ncols k) \<and> fsum (dat k) = Some 1"
proof -
  have pos: "0 < \<bar>s1\<bar>" "0 < \<bar>s2\<bar>" using assms by simp_all
  then have nz: "\<bar>s1\<bar> \<noteq> 0" "\<bar>s2\<bar> \<noteq> 0" by simp_all
  from bbox_finite [OF nz assms(3), of phi] obtain H W where
    HW: "0 \<le> H" "0 \<le> W"
    and bb: "compute_ellipse_bbox phi \<bar>s1\<bar> \<bar>s2\<bar> cutoff = (Some (- H), Some (- W), Some H, Some W)"
    by blast
  let ?x = "axis_points (py_int (- W)) (py_int W)"
  let ?y = "axis_points (py_int (- H)) (py_int H)"
  let ?res = "concat (map (\<lambda>yv. map (anisotropic_entry (phi / 180 * pi) \<bar>s1\<bar> \<bar>s2\<bar> p yv) ?x) ?y)"
  let ?k = "\<lparr>nrows = length ?y, ncols = length ?x, dat = normalise ?res\<rparr>"
  have ox: "odd (length ?x)" using axis_of_extent [of W] HW by simp
  have oy: "odd (length ?y)" using axis_of_extent [of H] HW by simp
  have val: "compute_kernel_anisotropic (Vector (phi # s1 # s2 # p # rest)) cutoff = Inr ?k"
    unfolding compute_kernel_anisotropic_def
    by (simp add: bb Let_def bind_err_def int_of_float_def)
  have pe: "positive_entries ?res"
    by (rule positive_mesh) (rule anisotropic_entry_positive [OF pos assms(4)])
  have ne: "?res \<noteq> []"
  proof -
    have "0 < length ?y * length ?x" using ox oy by (auto elim!: oddE)
    then have "0 < length ?res" by simp
    then show ?thesis by blast
  qed
  have "fsum (normalise ?res) = Some 1" by (rule normalise_sum_one [OF pe ne])
  with val ox oy show ?thesis by (simp add: wf2_def)
qed

lemma kernel_isotropic_normalised:
  assumes "sigma \<noteq> 0" "- 1 < sigma * cutoff"
  shows "\<exists>k. compute_kernel_isotropic (Vector (sigma # rest)) cutoff = Inr k \<and>
           wf2 k \<and> odd (nrows k) \<and> odd (ncols k) \<and> fsum (dat k) = Some 1"
proof -
  let ?x = "axis_points (py_int (- (sigma * cutoff))) (py_int (sigma * cutoff))"
  let ?res = "concat (map (\<lambda>yv. map (isotropic_entry sigma yv) ?x) ?x)"
  let ?k = "\<lparr>nrows = length ?x, ncols = length ?x, dat = normalise ?res\<rparr>"
  have ox: "odd (length ?x)" by (rule axis_of_extent [OF assms(2)])
  have val: "compute_kernel_isotropic (Vector (sigma # rest)) cutoff = Inr ?k"
    unfolding compute_kernel_isotropic_def by (simp add: Let_def)
  have pe: "positive_entries ?res"
    by (rule positive_mesh) (rule isotropic_entry_positive [OF assms(1)])
  have ne: "?res \<noteq> []"
  proof -
    have "0 < length ?x * length ?x" using ox by (auto elim!: oddE)
    then have "0 < length ?res" by simp
    then show ?thesis by blast
  qed
  have "fsum (normalise ?res) = Some 1" by (rule normalise_sum_one [OF pe ne])
  with val ox show ?thesis by (simp add: wf2_def)
qed

text \<open>
  Claim C2. For every parameter vector the anisotropic builder accepts (an angle, two
  non-zero scales, of which it takes the absolute values, a non-negative shape
  exponent, with a non-zero cutoff) and every sigma the isotropic builder accepts (a
  non-zero sigma with \<open>sigma * cutoff > -1\<close>, so every positive sigma with the default
  cutoff), the builder returns a two-dimensional kernel whose entries sum to one and
  whose two dimensions are odd. The sum is exact here, the floats being exact reals.
\<close>

theorem kernels_normalised_odd:
  "(s1 \<noteq> 0 \<and> s2 \<noteq> 0 \<and> cutoff \<noteq> 0 \<and> 0 \<le> p \<longrightarrow>
      (\<exists>k. compute_kernel_anisotropic (Vector (phi # s1 # s2 # p # rest)) cutoff = Inr k \<and>
           wf2 k \<and> odd (nrows k) \<and> odd (ncols k) \<and> fsum (dat k) = Some 1)) \<and>
   (sigma \<noteq> 0 \<and> - 1 < sigma * cutoff' \<longrightarrow>
      (\<exists>k. compute_kernel_isotropic (Vector (sigma # rest')) cutoff' = Inr k \<and>
           wf2 k \<and> odd (nrows k) \<and> odd (ncols k) \<and> fsum (dat k) = Some 1))"
  using kernel_anisotropic_normalised kernel_isotropic_normalised by blast

theorem kernels_normalised_odd_witness:
  "((1/2::real) \<noteq> 0 \<and> (2::real) \<noteq> 0 \<and> (6::real) \<noteq> 0 \<and> (0::real) \<le> 1 \<and>
      (\<exists>k. compute_kernel_anisotropic (Vector [30, 1/2, 2, 1]) 6 = Inr k \<and>
           wf2 k \<and> odd (nrows k) \<and> odd (ncols k) \<and> fsum (dat k) = Some 1)) \<and>
   ((1::real) \<noteq> 0 \<and> - 1 < (1::real) * 6 \<and>
      (\<exists>k. compute_kernel_isotropic (Vector [1]) 6 = Inr k \<and>
           wf2 k \<and> odd (nrows k) \<and> odd (ncols k) \<and> fsum (dat k) = Some 1))"
  using kernels_normalised_odd [of "1/2" 2 6 1 30 "[]" 1 6 "[]"] by simp

subsection \<open>The kernel fitter: what it returns\<close>

lemma compute_kernel_anisotropic_scalar:
  "compute_kernel_anisotropic (Scalar x) cutoff = Inl IndexError"
  by (simp add: compute_kernel_anisotropic_def)

text \<open>For the anisotropic family the fitter returns the anisotropic kernel built from the
  solver's parameters, converted by \<open>_get_anisotropic_kernel_params\<close>. For the isotropic
  family, once the solver has returned a sigma, the call raises.\<close>

lemma optimize_convol_params_isotropic_fitted:
  assumes "logical_and_gt valid weights = Inr valid'"
    and "minimize_scalar_bounded sp
           (objf field_src field_dst weights valid' ''isotropic'' cutoff method) (1 / 100, 10) = Inr sigma"
  shows "optimize_convol_params sp field_src field_dst weights valid ''isotropic'' cutoff method
        = Inl IndexError"
  using assms
  by (simp add: optimize_convol_params_def bind_err_def compute_kernel_anisotropic_scalar)

lemma optimize_convol_params_anisotropic:
  assumes "logical_and_gt valid weights = Inr valid'"
    and "least_squares_trf sp
           (objf field_src field_dst weights valid' ''anisotropic'' cutoff ''trf'') [1, 1, 1, 1]
           ([- 10, - 10, 1 / 4, 1 / 10], [10, 10, 4, 5]) = Inr x"
    and "get_anisotropic_kernel_params x = Inr p"
  shows "optimize_convol_params sp field_src field_dst weights valid ''anisotropic'' cutoff ''trf''
        = compute_kernel_anisotropic p cutoff"
  using assms
  by (simp add: optimize_convol_params_def bind_err_def)

text \<open>
  Claim C5 says that the fitter returns the normalised kernel of the family it was asked
  for and, in particular, the isotropic kernel built from the fitted sigma for the
  isotropic family. The code does not: for the isotropic family, whatever the fields,
  the weights, the mask and the solver, the call ends in an exception and returns no
  kernel, because the fitted sigma, a float, is handed to the anisotropic builder,
  which indexes it.
\<close>

theorem optimize_convol_params_isotropic_raises:
  "\<exists>e. optimize_convol_params sp field_src field_dst weights valid ''isotropic'' cutoff method
        = Inl e"
  by (simp add: optimize_convol_params_def bind_err_def compute_kernel_anisotropic_scalar
      split: sum.splits)

subsection \<open>Window weights\<close>











lemma grid_axis_sel [simp]:
  "length (grid_axis n) = n" "k < n \<Longrightarrow> grid_axis n ! k = (real k + 1 / 2) / real n"
  by (simp_all add: grid_axis_def)


subsection \<open>The forecast entry point\<close>

lemma free_names_unbound:
  "module_globals ''num_features'' = None"
  "module_globals ''feature_coords'' = None"
  "module_globals ''window_radii'' = None"
  by (simp_all add: module_globals_def module_names_def)

lemma forecast_example:
  "forecast module_globals precip3 advection0 1 1 False 1 ''isotropic'' 25 1 = Inl NameError"
  by (simp add: forecast_def load_global_def bind_err_def free_names_unbound)

text \<open>
  Claim C1 says that, for every valid input, the forecast entry point returns an array
  of shape \<open>(num_ens_members, num_timesteps, m, n)\<close>. The code does not: with the
  globals of the module every call raises NameError at its first statement, and with
  any globals whatever no call returns an array, since the body ends without a
  \<^verbatim>\<open>return\<close>.
\<close>

theorem forecast_returns_no_array:
  "forecast module_globals precip_fields advection_field num_timesteps ari_order
      add_perturbations num_ens_members kernel_type interp_window_radius num_workers
     = Inl NameError \<and>
   forecast g precip_fields advection_field num_timesteps ari_order
      add_perturbations num_ens_members kernel_type interp_window_radius num_workers
     \<noteq> Inr (Returns out)"
proof
  show "forecast module_globals precip_fields advection_field num_timesteps ari_order
      add_perturbations num_ens_members kernel_type interp_window_radius num_workers
     = Inl NameError"
    by (simp add: forecast_def load_global_def bind_err_def free_names_unbound)
  show "forecast g precip_fields advection_field num_timesteps ari_order
      add_perturbations num_ens_members kernel_type interp_window_radius num_workers
     \<noteq> Inr (Returns out)"
    by (simp add: forecast_def bind_err_def split: sum.splits)
qed

subsection \<open>The divisor of the masked convolution\<close>

text \<open>
  Both convolutions in \<open>_masked_convolution\<close> are taken of arrays without non-finite
  entries, so each is non-finite exactly where the kernel has a non-finite entry: the
  divisor is never non-finite at a position where the dividend is finite, and the
  division of a finite number by an infinity does not occur.
\<close>

lemma fadd_None_iff [simp]: "fadd a b = None \<longleftrightarrow> a = None \<or> b = None"
  by (cases a; cases b) (simp_all add: fadd_def)

lemma fmul_None_iff [simp]: "fmul a b = None \<longleftrightarrow> a = None \<or> b = None"
  by (cases a; cases b) (simp_all add: fmul_def)

lemma None_eq_fmul [simp]: "None = fmul a b \<longleftrightarrow> a = None \<or> b = None"
  by (cases a; cases b) (simp_all add: fmul_def)

lemma fsum_None_iff: "fsum xs = None \<longleftrightarrow> None \<in> set xs"
proof (induction xs)
  case Nil
  show ?case by (simp add: fsum_def)
next
  case (Cons x xs)
  have "fsum (x # xs) = fadd x (fsum xs)" by (simp add: fsum_def)
  with Cons show ?case by auto
qed

lemma padded_finite:
  assumes "wf2 a" "no_missing a"
  shows "padded a r c \<noteq> None"
proof (cases "0 \<le> r \<and> r < int (nrows a) \<and> 0 \<le> c \<and> c < int (ncols a)")
  case True
  then have "nat r < nrows a" "nat c < ncols a" by auto
  from flat_index_less [OF this] assms(1) have "nat r * ncols a + nat c < length (dat a)"
    by (simp add: wf2_def)
  then have "dat a ! (nat r * ncols a + nat c) \<in> set (dat a)" by simp
  with assms(2) True show ?thesis by (simp add: padded_def at2_def no_missing_def)
next
  case False
  then show ?thesis by (auto simp: padded_def)
qed

lemma conv_full_at_None_iff:
  assumes "wf2 a" "no_missing a"
  shows "conv_full_at a k r c = None \<longleftrightarrow> (\<exists>u < nrows k. \<exists>v < ncols k. at2 k u v = None)"
proof
  assume "conv_full_at a k r c = None"
  then obtain u v where uv: "u < nrows k" "v < ncols k"
    and "fmul (padded a (r - int u) (c - int v)) (at2 k u v) = None"
    unfolding conv_full_at_def fsum_None_iff by auto
  then have "at2 k u v = None" using padded_finite [OF assms] by simp
  with uv show "\<exists>u < nrows k. \<exists>v < ncols k. at2 k u v = None" by blast
next
  assume "\<exists>u < nrows k. \<exists>v < ncols k. at2 k u v = None"
  then obtain u v where uv: "u < nrows k" "v < ncols k" "at2 k u v = None" by blast
  let ?row = "\<lambda>u. map (\<lambda>v. fmul (padded a (r - int u) (c - int v)) (at2 k u v)) [0..<ncols k]"
  have "fmul (padded a (r - int u) (c - int v)) (at2 k u v) = None" using uv(3) by simp
  moreover have "v \<in> set [0..<ncols k]" using uv(2) by simp
  ultimately have 1: "None \<in> set (?row u)"
    unfolding set_map by (metis (no_types, lifting) imageI)
  have "u \<in> set [0..<nrows k]" using uv(1) by simp
  then have 2: "?row u \<in> set (map ?row [0..<nrows k])"
    unfolding set_map by (rule imageI)
  have "None \<in> set (concat (map ?row [0..<nrows k]))"
    unfolding set_concat by (rule UN_I [where a = "?row u" and B = set, OF 2 1])
  then show "conv_full_at a k r c = None"
    unfolding conv_full_at_def fsum_None_iff .
qed

lemma zero_filled_finite: "wf2 a \<Longrightarrow> wf2 (zero_filled a)" "no_missing (zero_filled a)"
  by (auto simp: wf2_def zero_filled_def no_missing_def split: option.splits)

lemma finiteness_mask_finite: "wf2 a \<Longrightarrow> wf2 (finiteness_mask a)" "no_missing (finiteness_mask a)"
  by (auto simp: wf2_def finiteness_mask_def no_missing_def split: option.splits)

lemma masked_divisor_finite:
  assumes "wf2 field" "i < nrows field" "j < ncols field"
  shows "at2 (convolve_same (finiteness_mask field) kern) i j = None \<longleftrightarrow>
         at2 (convolve_same (zero_filled field) kern) i j = None"
proof -
  have p: "i * ncols field + j < nrows field * ncols field"
    by (rule flat_index_less [OF assms(2,3)])
  show ?thesis
    using p
    by (simp add: at2_def convolve_same_def
        conv_full_at_None_iff [OF zero_filled_finite(1) [OF assms(1)] zero_filled_finite(2)]
        conv_full_at_None_iff [OF finiteness_mask_finite(1) [OF assms(1)] finiteness_mask_finite(2)])
qed

subsection \<open>Window weights: values and decay\<close>








end
